theory Spec2Isabelle
  imports Main "HOL-Library.List_Lexorder" "HOL-Library.Multiset"
begin

section \<open>JavaScript values read from JSON\<close>

text \<open>
  Both scripts work on what \<^verbatim>\<open>JSON.parse\<close> returns. A parsed document is a \<open>json\<close>
  value; a JavaScript value that may also be \<^verbatim>\<open>undefined\<close> is a \<open>json option\<close>, with
  \<open>None\<close> for \<^verbatim>\<open>undefined\<close>. An object is the list of its own properties, looked up
  with \<open>map_of\<close>. Numbers are the integers that JavaScript holds exactly: the scripts only
  ask of a number whether it is zero and what its type is, and print it. Strings are the
  bytes of their well-formed UTF-8 text, which keeps equality and substring search as
  JavaScript has them.
\<close>

datatype json =
    JNull
  | JBool bool
  | JNum int
  | JStr string
  | JArr "json list"
  | JObj "(string \<times> json) list"

type_synonym jsval = "json option"

text \<open>What a script can throw, and what the file system can refuse.\<close>

datatype exn =
    TypeError
  | SyntaxError
  | ENOENT
  | EISDIR
  | Failed string

text \<open>
  Member access \<^verbatim>\<open>v.k\<close> for the property names the scripts use (none of them is a
  property of a string, array, number or boolean prototype): reading a property of
  \<^verbatim>\<open>undefined\<close> or \<^verbatim>\<open>null\<close> throws a TypeError, an object gives its own
  property, anything else gives \<^verbatim>\<open>undefined\<close>.
\<close>

fun get :: "jsval \<Rightarrow> string \<Rightarrow> exn + jsval" where
  "get None k = Inl TypeError"
| "get (Some JNull) k = Inl TypeError"
| "get (Some (JObj kvs)) k = Inr (map_of kvs k)"
| "get (Some v) k = Inr None"

text \<open>JavaScript truthiness, the test behind \<^verbatim>\<open>!v\<close>, \<^verbatim>\<open>a || b\<close> and \<^verbatim>\<open>if (v)\<close>.\<close>

fun truthy :: "jsval \<Rightarrow> bool" where
  "truthy None = False"
| "truthy (Some JNull) = False"
| "truthy (Some (JBool b)) = b"
| "truthy (Some (JNum n)) = (n \<noteq> 0)"
| "truthy (Some (JStr s)) = (s \<noteq> [])"
| "truthy (Some (JArr xs)) = True"
| "truthy (Some (JObj kvs)) = True"

fun isArray :: "jsval \<Rightarrow> bool" where
  "isArray (Some (JArr xs)) = True"
| "isArray v = False"

text \<open>\<^verbatim>\<open>String.prototype.startsWith\<close>, \<^verbatim>\<open>endsWith\<close> and \<^verbatim>\<open>includes\<close>.\<close>

fun startsWith :: "string \<Rightarrow> string \<Rightarrow> bool" where
  "startsWith s [] = True"
| "startsWith [] (p # ps) = False"
| "startsWith (c # cs) (p # ps) = (c = p \<and> startsWith cs ps)"

definition endsWith :: "string \<Rightarrow> string \<Rightarrow> bool" where
  "endsWith s suffix = startsWith (rev s) (rev suffix)"

fun str_includes :: "string \<Rightarrow> string \<Rightarrow> bool" where
  "str_includes [] pat = (pat = [])"
| "str_includes (c # cs) pat = (startsWith (c # cs) pat \<or> str_includes cs pat)"

text \<open>
  \<^verbatim>\<open>ToString\<close>, which the default comparison of \<^verbatim>\<open>Array.prototype.sort\<close> and a
  template literal apply to a value. An array prints its elements joined by commas,
  \<^verbatim>\<open>null\<close> elements as nothing. An object prints as \<^verbatim>\<open>[object Object]\<close> through the
  method it inherits, unless it has an own property \<^verbatim>\<open>toString\<close>: a value read from JSON
  is never a function, so the conversion finds no method that gives a primitive and throws
  a TypeError.
\<close>

fun digits :: "nat \<Rightarrow> string" where
  "digits n = (if n < 10 then [char_of (48 + n)] else digits (n div 10) @ [char_of (48 + n mod 10)])"

declare digits.simps [simp del]

definition number_toString :: "int \<Rightarrow> string" where
  "number_toString i = (if i < 0 then CHR ''-'' # digits (nat (- i)) else digits (nat i))"

fun join_commas :: "string list \<Rightarrow> string" where
  "join_commas [] = []"
| "join_commas [s] = s"
| "join_commas (s # t # ss) = s @ '','' @ join_commas (t # ss)"

fun toString :: "json \<Rightarrow> exn + string"
  and join_elements :: "json list \<Rightarrow> exn + string list" where
  "toString JNull = Inr ''null''"
| "toString (JBool b) = Inr (if b then ''true'' else ''false'')"
| "toString (JNum i) = Inr (number_toString i)"
| "toString (JStr s) = Inr s"
| "toString (JArr xs) =
     (case join_elements xs of Inl e \<Rightarrow> Inl e | Inr ss \<Rightarrow> Inr (join_commas ss))"
| "toString (JObj kvs) =
     (if map_of kvs ''toString'' \<noteq> None then Inl TypeError else Inr ''[object Object]'')"
| "join_elements [] = Inr []"
| "join_elements (x # xs) =
     (case (if x = JNull then Inr [] else toString x) of
        Inl e \<Rightarrow> Inl e
      | Inr s \<Rightarrow> (case join_elements xs of Inl e \<Rightarrow> Inl e | Inr ss \<Rightarrow> Inr (s # ss)))"

text \<open>
  The default comparison of \<^verbatim>\<open>sort\<close> orders two strings by their UTF-16 code units.
  That is the order of their UTF-8 bytes, except that the characters from U+E000 to U+FFFF,
  whose bytes begin with EE or EF, come after the characters beyond the Basic Multilingual
  Plane, whose bytes begin with F0 to F4. \<open>order_key\<close> lifts these two lead bytes above the
  others, so that keys compare as the code units do.
\<close>

definition order_key :: "string \<Rightarrow> nat list" where
  "order_key s =
     map (\<lambda>c. if of_char c = (0xEE :: nat) \<or> of_char c = (0xEF :: nat)
               then of_char c + 16 else of_char c) s"

section \<open>The file system under the components directory\<close>

text \<open>
  A directory lists its entries by name, as \<^verbatim>\<open>readdirSync\<close> returns them; a file holds
  its text. \<^verbatim>\<open>JSON.parse\<close> is a parameter \<open>parse\<close> of the model, \<open>None\<close> when it throws
  a SyntaxError.
\<close>

datatype node =
    File string
  | Dir "(string \<times> node) list"

text \<open>
  \<^verbatim>\<open>path.join(basePath, item)\<close> on the names that \<^verbatim>\<open>readdirSync\<close> returns, which are
  single segments that need no normalising, and the \<^verbatim>\<open>replace(/\\/g, '/')\<close> that follows
  it. The separator is the slash; where the platform joins with a backslash the
  replacement gives the same relative path.
\<close>

definition path_join :: "string \<Rightarrow> string \<Rightarrow> string" where
  "path_join basePath item = basePath @ ''/'' @ item"

definition slashes :: "string \<Rightarrow> string" where
  "slashes p = map (\<lambda>c. if c = CHR 0x5C then CHR ''/'' else c) p"

function getAllJsonFiles :: "(string \<times> node) list \<Rightarrow> string \<Rightarrow> string list" where
  "getAllJsonFiles [] basePath = []"
| "getAllJsonFiles ((item, Dir sub) # items) basePath =
     getAllJsonFiles sub (if basePath \<noteq> [] then path_join basePath item else item)
       @ getAllJsonFiles items basePath"
| "getAllJsonFiles ((item, File text) # items) basePath =
     (if endsWith item ''.json'' \<and> item \<noteq> ''index.json''
      then [slashes (if basePath \<noteq> [] then path_join basePath item else item)]
      else [])
       @ getAllJsonFiles items basePath"
  by pat_completeness auto
termination
  by (relation "measure (\<lambda>(items, basePath). size_list (size_prod (\<lambda>n. 0) size) items)") auto

text \<open>
  Opening a path relative to the components directory, as \<^verbatim>\<open>readFileSync\<close> does with
  \<^verbatim>\<open>path.join(COMPONENTS_DIR, componentFile)\<close>: the path is split at its slashes and
  followed from directory to directory, segment by segment as written. A path that leads
  nowhere throws ENOENT, one that leads to a directory throws EISDIR. The paths the
  validator opens are the ones its walk has produced: in a tree whose names hold no
  backslash they have no empty segment and no dot segment, and \<^verbatim>\<open>path.join\<close> leaves
  them as they are.
\<close>

fun split_path :: "string \<Rightarrow> string list" where
  "split_path [] = [[]]"
| "split_path (c # cs) =
     (if c = CHR ''/'' then [] # split_path cs
      else (case split_path cs of [] \<Rightarrow> [[c]] | seg # segs \<Rightarrow> (c # seg) # segs))"

fun lookup_path :: "(string \<times> node) list \<Rightarrow> string list \<Rightarrow> node option" where
  "lookup_path items [] = None"
| "lookup_path items [seg] = map_of items seg"
| "lookup_path items (seg # segs) =
     (case map_of items seg of Some (Dir sub) \<Rightarrow> lookup_path sub segs | _ \<Rightarrow> None)"

definition readFileSync :: "(string \<times> node) list \<Rightarrow> string \<Rightarrow> exn + string" where
  "readFileSync items p =
     (case lookup_path items (split_path p) of
        None \<Rightarrow> Inl ENOENT
      | Some (Dir sub) \<Rightarrow> Inl EISDIR
      | Some (File text) \<Rightarrow> Inr text)"

section \<open>The validator: scripts/validate-components.js\<close>

text \<open>
  What the script prints, by console channel, and the status the process ends with. The
  run carries the lines printed so far and the flag \<^verbatim>\<open>hasErrors\<close>.
\<close>

datatype level = Log | Warn | Error

datatype msg =
    Validating
  | DirNotFound
  | IndexNotFound
  | IndexValid
  | IndexInvalid exn
  | IndexMissingVersion
  | IndexMissingComponents
  | Found nat
  | Declares nat
  | NotListed "string list"
  | NotListedHint
  | Stale "json list"
  | Skipping string
  | Missing string string
  | InvalidFile string exn
  | ValidationFailed
  | AllPassed
  | Ready nat
  | Uncaught exn

record run =
  out :: "(level \<times> msg) list"
  hasErrors :: bool

record outcome =
  printed :: "(level \<times> msg) list"
  status :: nat

definition say :: "level \<Rightarrow> msg \<Rightarrow> run \<Rightarrow> run" where
  "say l m s = s\<lparr>out := out s @ [(l, m)]\<rparr>"

text \<open>\<^verbatim>\<open>console.error(...); hasErrors = true;\<close>\<close>

definition fail :: "msg \<Rightarrow> run \<Rightarrow> run" where
  "fail m s = (say Error m s)\<lparr>hasErrors := True\<rparr>"

text \<open>\<^verbatim>\<open>process.exit(1)\<close>, the normal end of the script, and an exception nobody catches.\<close>

definition exit1 :: "run \<Rightarrow> outcome" where
  "exit1 s = \<lparr>printed = out s, status = 1\<rparr>"

definition exit0 :: "run \<Rightarrow> outcome" where
  "exit0 s = \<lparr>printed = out s, status = 0\<rparr>"

definition uncaught :: "exn \<Rightarrow> run \<Rightarrow> outcome" where
  "uncaught e s = \<lparr>printed = out s @ [(Error, Uncaught e)], status = 1\<rparr>"

text \<open>\<^verbatim>\<open>JSON.parse(fs.readFileSync(path, 'utf8'))\<close>\<close>

definition load :: "(string \<Rightarrow> json option) \<Rightarrow> (string \<times> node) list \<Rightarrow> string \<Rightarrow> exn + json" where
  "load parse items p =
     (case readFileSync items p of
        Inl e \<Rightarrow> Inl e
      | Inr content \<Rightarrow> (case parse content of None \<Rightarrow> Inl SyntaxError | Some v \<Rightarrow> Inr v))"

text \<open>\<^verbatim>\<open>componentData.topics || componentData.definitions\<close>\<close>

definition topics_or_definitions :: "json \<Rightarrow> exn + jsval" where
  "topics_or_definitions componentData =
     (case get (Some componentData) ''topics'' of
        Inl e \<Rightarrow> Inl e
      | Inr topics \<Rightarrow> if truthy topics then Inr topics else get (Some componentData) ''definitions'')"

text \<open>
  The three structure checks of the loop body. Each returns the run as it stands when
  the check ends, with the exception if one was thrown.
\<close>

definition check_metadata :: "string \<Rightarrow> json \<Rightarrow> run \<Rightarrow> run \<times> exn option" where
  "check_metadata componentFile componentData s =
     (case get (Some componentData) ''metadata'' of
        Inl e \<Rightarrow> (s, Some e)
      | Inr metadata \<Rightarrow>
          if \<not> truthy metadata then (fail (Missing componentFile ''metadata'') s, None)
          else (case get metadata ''type'' of
                  Inl e \<Rightarrow> (s, Some e)
                | Inr ty \<Rightarrow>
                    let s1 = (if \<not> truthy ty then fail (Missing componentFile ''metadata.type'') s else s)
                    in (case get metadata ''name'' of
                          Inl e \<Rightarrow> (s1, Some e)
                        | Inr nm \<Rightarrow>
                            (if \<not> truthy nm then fail (Missing componentFile ''metadata.name'') s1 else s1,
                             None))))"

definition check_ui :: "string \<Rightarrow> json \<Rightarrow> run \<Rightarrow> run \<times> exn option" where
  "check_ui componentFile componentData s =
     (case get (Some componentData) ''ui'' of
        Inl e \<Rightarrow> (s, Some e)
      | Inr ui \<Rightarrow>
          if \<not> truthy ui then (fail (Missing componentFile ''ui'') s, None)
          else (case get ui ''template'' of
                  Inl e \<Rightarrow> (s, Some e)
                | Inr template \<Rightarrow>
                    (if \<not> truthy template then fail (Missing componentFile ''ui.template'') s else s,
                     None)))"

definition check_integration :: "string \<Rightarrow> json \<Rightarrow> run \<Rightarrow> run \<times> exn option" where
  "check_integration componentFile componentData s =
     (case get (Some componentData) ''integration'' of
        Inl e \<Rightarrow> (s, Some e)
      | Inr integration \<Rightarrow>
          (if \<not> truthy integration then fail (Missing componentFile ''integration'') s else s,
           None))"

definition check_structure :: "string \<Rightarrow> json \<Rightarrow> run \<Rightarrow> run \<times> exn option" where
  "check_structure componentFile componentData s =
     (case check_metadata componentFile componentData s of
        (s1, Some e) \<Rightarrow> (s1, Some e)
      | (s1, None) \<Rightarrow>
          (case check_ui componentFile componentData s1 of
             (s2, Some e) \<Rightarrow> (s2, Some e)
           | (s2, None) \<Rightarrow> check_integration componentFile componentData s2))"

text \<open>The body of the \<^verbatim>\<open>try\<close> block, for one file of \<^verbatim>\<open>actualFiles\<close>.\<close>

definition try_component ::
  "(string \<Rightarrow> json option) \<Rightarrow> (string \<times> node) list \<Rightarrow> string \<Rightarrow> run \<Rightarrow> run \<times> exn option" where
  "try_component parse items componentFile s =
     (case load parse items componentFile of
        Inl e \<Rightarrow> (s, Some e)
      | Inr componentData \<Rightarrow>
          (case topics_or_definitions componentData of
             Inl e \<Rightarrow> (s, Some e)
           | Inr t \<Rightarrow>
               if truthy t then (say Log (Skipping componentFile) s, None)
               else check_structure componentFile componentData s))"

text \<open>One turn of the loop: the \<^verbatim>\<open>try\<close> block and its \<^verbatim>\<open>catch\<close>.\<close>

definition validate_component ::
  "(string \<Rightarrow> json option) \<Rightarrow> (string \<times> node) list \<Rightarrow> run \<Rightarrow> string \<Rightarrow> run" where
  "validate_component parse items s componentFile =
     (case try_component parse items componentFile s of
        (s1, None) \<Rightarrow> s1
      | (s1, Some e) \<Rightarrow> fail (InvalidFile componentFile e) s1)"

text \<open>The closing loop that counts the components, \<open>Inl\<close> when it throws.\<close>

fun count_components ::
  "(string \<Rightarrow> json option) \<Rightarrow> (string \<times> node) list \<Rightarrow> string list \<Rightarrow> nat \<Rightarrow> exn + nat" where
  "count_components parse items [] componentCount = Inr componentCount"
| "count_components parse items (file # files) componentCount =
     (case load parse items file of
        Inl e \<Rightarrow> Inl e
      | Inr data \<Rightarrow>
          (case get (Some data) ''topics'' of
             Inl e \<Rightarrow> Inl e
           | Inr topics \<Rightarrow>
               if \<not> truthy topics
               then (case get (Some data) ''definitions'' of
                       Inl e \<Rightarrow> Inl e
                     | Inr definitions \<Rightarrow>
                         count_components parse items files
                           (if \<not> truthy definitions then Suc componentCount else componentCount))
               else count_components parse items files componentCount))"

text \<open>\<^verbatim>\<open>actualFiles.includes(file)\<close> for an entry of the index, which may be any value.\<close>

fun includes_value :: "string list \<Rightarrow> json \<Rightarrow> bool" where
  "includes_value files (JStr s) = (s \<in> set files)"
| "includes_value files v = False"

text \<open>
  The four lists of lines 80 to 95, under the names the script gives them.
  \<^verbatim>\<open>[...indexData.components].sort()\<close> prints both of the entries it compares: with two
  entries or more every entry is compared with another, so the sort throws when an entry
  cannot be printed; with fewer than two nothing is compared.
\<close>

definition actualFiles :: "(string \<times> node) list \<Rightarrow> string list" where
  "actualFiles items = sort_key order_key (getAllJsonFiles items [])"

definition printable :: "json \<Rightarrow> bool" where
  "printable v = (case toString v of Inl e \<Rightarrow> False | Inr s \<Rightarrow> True)"

definition text_of :: "json \<Rightarrow> string" where
  "text_of v = (case toString v of Inl e \<Rightarrow> [] | Inr s \<Rightarrow> s)"

definition declaredFiles :: "json list \<Rightarrow> exn + json list" where
  "declaredFiles components =
     (if 2 \<le> length components \<and> \<not> list_all printable components then Inl TypeError
      else Inr (sort_key (\<lambda>v. order_key (text_of v)) components))"

definition missingFromIndex :: "string list \<Rightarrow> json list \<Rightarrow> string list" where
  "missingFromIndex actual declared = filter (\<lambda>file. JStr file \<notin> set declared) actual"

definition staleInIndex :: "string list \<Rightarrow> json list \<Rightarrow> json list" where
  "staleInIndex actual declared = filter (\<lambda>file. \<not> includes_value actual file) declared"

text \<open>
  The script from the comparison of the lists to its end (lines 80 to 169). The exception
  of the sort is caught nowhere: the process prints it and ends with status 1.
\<close>

definition validate_files ::
  "(string \<Rightarrow> json option) \<Rightarrow> (string \<times> node) list \<Rightarrow> json list \<Rightarrow> run \<Rightarrow> outcome" where
  "validate_files parse items components s =
     (case declaredFiles components of
        Inl e \<Rightarrow> uncaught e s
      | Inr declared \<Rightarrow>
          let actual = actualFiles items;
              s1 = say Log (Found (length actual)) s;
              s2 = say Log (Declares (length declared)) s1;
              s3 = (if length (missingFromIndex actual declared) > 0
                    then say Warn NotListedHint (say Warn (NotListed (missingFromIndex actual declared)) s2)
                    else s2);
              s4 = (if length (staleInIndex actual declared) > 0
                    then fail (Stale (staleInIndex actual declared)) s3
                    else s3);
              s5 = foldl (validate_component parse items) s4 actual
          in if hasErrors s5 then exit1 (say Error ValidationFailed s5)
             else (let s6 = say Log AllPassed s5
                   in case count_components parse items actual 0 of
                        Inl e \<Rightarrow> uncaught e s6
                      | Inr componentCount \<Rightarrow> exit0 (say Log (Ready componentCount) s6)))"

text \<open>The checks of the parsed index (lines 46 to 59).\<close>

definition validate_index ::
  "(string \<Rightarrow> json option) \<Rightarrow> (string \<times> node) list \<Rightarrow> json \<Rightarrow> run \<Rightarrow> outcome" where
  "validate_index parse items indexData s =
     (case get (Some indexData) ''version'' of
        Inl e \<Rightarrow> uncaught e s
      | Inr version \<Rightarrow>
          let s1 = (if \<not> truthy version then fail IndexMissingVersion s else s)
          in (case get (Some indexData) ''components'' of
                Inl e \<Rightarrow> uncaught e s1
              | Inr components \<Rightarrow>
                  let s2 = (if \<not> isArray components then fail IndexMissingComponents s1 else s1)
                  in if hasErrors s2 then exit1 s2
                     else (case components of
                             Some (JArr cs) \<Rightarrow> validate_files parse items cs s2
                           | _ \<Rightarrow> exit1 s2)))"

text \<open>
  The whole script. Its input is what lies at \<^verbatim>\<open>json-components\<close> in the working
  directory, \<open>None\<close> when nothing does. \<^verbatim>\<open>existsSync\<close> of the index file holds when the
  directory has an entry of that name, file or directory.
\<close>

definition index_exists :: "node option \<Rightarrow> bool" where
  "index_exists root =
     (case root of Some (Dir items) \<Rightarrow> map_of items ''index.json'' \<noteq> None | _ \<Rightarrow> False)"

definition validatePackage :: "(string \<Rightarrow> json option) \<Rightarrow> node option \<Rightarrow> outcome" where
  "validatePackage parse root =
     (let s0 = say Log Validating \<lparr>out = [], hasErrors = False\<rparr>;
          s1 = (if root = None then fail DirNotFound s0 else s0);
          s2 = (if \<not> index_exists root then fail IndexNotFound s1 else s1)
      in if hasErrors s2 then exit1 s2
         else (case root of
                 Some (Dir items) \<Rightarrow>
                   (case load parse items ''index.json'' of
                      Inl e \<Rightarrow> exit1 (say Error (IndexInvalid e) s2)
                    | Inr indexData \<Rightarrow> validate_index parse items indexData (say Log IndexValid s2))
               | _ \<Rightarrow> exit1 s2))"

section \<open>The test suite: tests/react-component.test.js\<close>

text \<open>
  The four assertion helpers. A failed assertion throws an \<^verbatim>\<open>Error\<close> whose text starts
  with the message given; \<open>Failed\<close> keeps that message and leaves out the printed values
  that \<^verbatim>\<open>assertEqual\<close> and \<^verbatim>\<open>assertType\<close> add to it. \<^verbatim>\<open>assertEqual\<close> prints the
  actual value into the text of its error, \<^verbatim>\<open>undefined\<close> under that name, and throws the
  TypeError of the printing when the value cannot be printed.
\<close>

definition assert :: "bool \<Rightarrow> string \<Rightarrow> exn + unit" where
  "assert condition message = (if \<not> condition then Inl (Failed message) else Inr ())"

text \<open>\<^verbatim>\<open>actual !== expected\<close>, where every expected value of the suite is a string.\<close>

fun interpolate :: "jsval \<Rightarrow> exn + string" where
  "interpolate None = Inr ''undefined''"
| "interpolate (Some v) = toString v"

definition assertEqual :: "jsval \<Rightarrow> string \<Rightarrow> string \<Rightarrow> exn + unit" where
  "assertEqual actual expected message =
     (if actual \<noteq> Some (JStr expected)
      then (case interpolate actual of Inl e \<Rightarrow> Inl e | Inr got \<Rightarrow> Inl (Failed message))
      else Inr ())"

definition assertExists :: "jsval \<Rightarrow> string \<Rightarrow> exn + unit" where
  "assertExists v message =
     (if v = None \<or> v = Some JNull then Inl (Failed message) else Inr ())"

fun typeof :: "jsval \<Rightarrow> string" where
  "typeof None = ''undefined''"
| "typeof (Some JNull) = ''object''"
| "typeof (Some (JBool b)) = ''boolean''"
| "typeof (Some (JNum n)) = ''number''"
| "typeof (Some (JStr s)) = ''string''"
| "typeof (Some (JArr xs)) = ''object''"
| "typeof (Some (JObj kvs)) = ''object''"

definition assertType :: "jsval \<Rightarrow> string \<Rightarrow> string \<Rightarrow> exn + unit" where
  "assertType v expectedType message =
     (if typeof v \<noteq> expectedType then Inl (Failed message) else Inr ())"

text \<open>
  A chain of member accesses \<^verbatim>\<open>v.a.b.c\<close>, evaluated from the left, and the method call
  \<^verbatim>\<open>v.includes(x)\<close> with a string argument: substring search on a string, membership
  in an array, and a TypeError on anything else, which has no such method.
\<close>

fun member :: "jsval \<Rightarrow> string list \<Rightarrow> exn + jsval" where
  "member v [] = Inr v"
| "member v (k # ks) = (case get v k of Inl e \<Rightarrow> Inl e | Inr w \<Rightarrow> member w ks)"

fun js_includes :: "jsval \<Rightarrow> string \<Rightarrow> exn + bool" where
  "js_includes (Some (JStr s)) x = Inr (str_includes s x)"
| "js_includes (Some (JArr xs)) x = Inr (JStr x \<in> set xs)"
| "js_includes v x = Inl TypeError"

text \<open>
  \<open>on\<close> passes the value of an expression to the statement that uses it, unless the
  expression threw; \<open>statements\<close> runs the statements of a test body in order and stops at
  the first that throws. The bodies only read the two documents, so each statement is
  written with the whole expression it evaluates.
\<close>

definition on :: "exn + 'a \<Rightarrow> ('a \<Rightarrow> exn + 'b) \<Rightarrow> exn + 'b" where
  "on x f = (case x of Inl e \<Rightarrow> Inl e | Inr v \<Rightarrow> f v)"

fun statements :: "(exn + unit) list \<Rightarrow> exn + unit" where
  "statements [] = Inr ()"
| "statements (x # xs) = (case x of Inl e \<Rightarrow> Inl e | Inr u \<Rightarrow> statements xs)"

text \<open>The React emoji of the source, U+269B U+FE0F, as its six bytes.\<close>

definition react_emoji :: string where
  "react_emoji = [CHR 0xE2, CHR 0x9A, CHR 0x9B, CHR 0xEF, CHR 0xB8, CHR 0x8F]"

definition test1 :: "json \<Rightarrow> exn + unit" where
  \<open>test1 reactComponent = statements [
     on (member (Some reactComponent) [''metadata''])
        (\<lambda>v. assertExists v ''metadata field missing''),
     on (member (Some reactComponent) [''metadata'', ''type''])
        (\<lambda>v. assertEqual v ''react'' ''metadata.type should be "react"''),
     on (member (Some reactComponent) [''metadata'', ''name''])
        (\<lambda>v. assertEqual v ''React'' ''metadata.name should be "React"''),
     on (member (Some reactComponent) [''metadata'', ''version''])
        (\<lambda>v. assertExists v ''metadata.version missing''),
     on (member (Some reactComponent) [''metadata'', ''description''])
        (\<lambda>v. assertExists v ''metadata.description missing''),
     on (member (Some reactComponent) [''metadata'', ''tags''])
        (\<lambda>v. assertType v ''object'' ''metadata.tags should be an array''),
     on (member (Some reactComponent) [''metadata'', ''tags''])
        (\<lambda>v. assert (isArray v) ''metadata.tags should be an array''),
     on (on (member (Some reactComponent) [''metadata'', ''tags'']) (\<lambda>v. js_includes v ''react''))
        (\<lambda>b. assert b ''metadata.tags should include "react"'')]\<close>

definition test2 :: "json \<Rightarrow> exn + unit" where
  \<open>test2 reactComponent = statements [
     on (member (Some reactComponent) [''ui''])
        (\<lambda>v. assertExists v ''ui field missing''),
     on (member (Some reactComponent) [''ui'', ''template''])
        (\<lambda>v. assertExists v ''ui.template missing''),
     on (member (Some reactComponent) [''ui'', ''styles''])
        (\<lambda>v. assertExists v ''ui.styles missing''),
     on (member (Some reactComponent) [''ui'', ''icon''])
        (\<lambda>v. assertExists v ''ui.icon missing''),
     on (member (Some reactComponent) [''ui'', ''icon'', ''value''])
        (\<lambda>v. assertEqual v react_emoji ''ui.icon.value should be React emoji''),
     on (member (Some reactComponent) [''ui'', ''tools''])
        (\<lambda>v. assertExists v ''ui.tools missing''),
     on (member (Some reactComponent) [''ui'', ''tools'', ''drag'', ''enabled''])
        (\<lambda>v. assert (truthy v) ''ui.tools.drag should be enabled''),
     on (member (Some reactComponent) [''ui'', ''tools'', ''resize'', ''enabled''])
        (\<lambda>v. assert (truthy v) ''ui.tools.resize should be enabled'')]\<close>

definition test3 :: "json \<Rightarrow> exn + unit" where
  \<open>test3 reactComponent = statements [
     on (member (Some reactComponent) [''integration''])
        (\<lambda>v. assertExists v ''integration field missing''),
     on (member (Some reactComponent) [''integration'', ''properties''])
        (\<lambda>v. assertExists v ''integration.properties missing''),
     on (member (Some reactComponent) [''integration'', ''properties'', ''schema''])
        (\<lambda>v. assertExists v ''integration.properties.schema missing''),
     on (member (Some reactComponent) [''integration'', ''properties'', ''schema'', ''code''])
        (\<lambda>v. assertExists v ''integration.properties.schema.code missing''),
     on (member (Some reactComponent) [''integration'', ''properties'', ''schema'', ''code'', ''type''])
        (\<lambda>v. assertEqual v ''string'' ''code schema type should be string''),
     on (member (Some reactComponent) [''integration'', ''properties'', ''schema'', ''code'', ''default''])
        (\<lambda>v. assertExists v ''code schema should have default value''),
     on (on (member (Some reactComponent) [''integration'', ''properties'', ''schema'', ''code'', ''default''])
            (\<lambda>v. js_includes v ''export default function''))
        (\<lambda>b. assert b ''default code should be a React component''),
     on (member (Some reactComponent) [''integration'', ''properties'', ''schema'', ''code'', ''ui''])
        (\<lambda>v. assertExists v ''code schema should have UI configuration''),
     on (member (Some reactComponent) [''integration'', ''properties'', ''schema'', ''code'', ''ui'', ''control''])
        (\<lambda>v. assertEqual v ''code'' ''code schema UI control should be "code"'')]\<close>

definition test4 :: "json \<Rightarrow> exn + unit" where
  \<open>test4 reactComponent = statements [
     on (member (Some reactComponent) [''template''])
        (\<lambda>v. assertExists v ''template field missing''),
     on (member (Some reactComponent) [''template'', ''render''])
        (\<lambda>v. assertExists v ''template.render missing''),
     on (member (Some reactComponent) [''template'', ''render'', ''strategy''])
        (\<lambda>v. assertEqual v ''react'' ''template.render.strategy should be "react"''),
     on (member (Some reactComponent) [''template'', ''react''])
        (\<lambda>v. assertExists v ''template.react missing''),
     on (member (Some reactComponent) [''template'', ''react'', ''code''])
        (\<lambda>v. assertExists v ''template.react.code missing''),
     on (member (Some reactComponent) [''template'', ''classes''])
        (\<lambda>v. assertExists v ''template.classes missing''),
     on (member (Some reactComponent) [''template'', ''classes''])
        (\<lambda>v. assert (isArray v) ''template.classes should be an array''),
     on (on (member (Some reactComponent) [''template'', ''classes'']) (\<lambda>v. js_includes v ''rx-comp''))
        (\<lambda>b. assert b ''template.classes should include "rx-comp"''),
     on (on (member (Some reactComponent) [''template'', ''classes'']) (\<lambda>v. js_includes v ''rx-react''))
        (\<lambda>b. assert b ''template.classes should include "rx-react"'')]\<close>

definition test5 :: "json \<Rightarrow> exn + unit" where
  \<open>test5 reactComponent = statements [
     on (member (Some reactComponent) [''interactions''])
        (\<lambda>v. assertExists v ''interactions field missing''),
     on (member (Some reactComponent) [''interactions'', ''canvas.component.create''])
        (\<lambda>v. assertExists v ''canvas.component.create interaction missing''),
     on (member (Some reactComponent) [''interactions'', ''canvas.component.create'', ''pluginId''])
        (\<lambda>v. assertEqual v ''CanvasComponentPlugin'' ''should use CanvasComponentPlugin''),
     on (member (Some reactComponent) [''interactions'', ''canvas.component.create'', ''sequenceId''])
        (\<lambda>v. assertEqual v ''canvas-component-create-symphony'' ''should use correct sequence'')]\<close>

definition test6 :: "json \<Rightarrow> exn + unit" where
  \<open>test6 index = statements [
     on (member (Some index) [''components''])
        (\<lambda>v. assert (isArray v) ''index.components should be an array''),
     on (on (member (Some index) [''components'']) (\<lambda>v. js_includes v ''react.json''))
        (\<lambda>b. assert b ''index.components should include react.json'')]\<close>

definition test7 :: "json \<Rightarrow> exn + unit" where
  \<open>test7 reactComponent = statements [
     on (member (Some reactComponent) [''integration'', ''canvasIntegration''])
        (\<lambda>v. assertExists v ''canvasIntegration missing''),
     on (member (Some reactComponent) [''integration'', ''canvasIntegration'', ''resizable''])
        (\<lambda>v. assert (truthy v) ''should be resizable''),
     on (member (Some reactComponent) [''integration'', ''canvasIntegration'', ''draggable''])
        (\<lambda>v. assert (truthy v) ''should be draggable''),
     on (member (Some reactComponent) [''integration'', ''canvasIntegration'', ''selectable''])
        (\<lambda>v. assert (truthy v) ''should be selectable''),
     on (member (Some reactComponent) [''integration'', ''canvasIntegration'', ''defaultWidth''])
        (\<lambda>v. assertType v ''number'' ''defaultWidth should be a number''),
     on (member (Some reactComponent) [''integration'', ''canvasIntegration'', ''defaultHeight''])
        (\<lambda>v. assertType v ''number'' ''defaultHeight should be a number'')]\<close>

definition test8 :: "json \<Rightarrow> exn + unit" where
  \<open>test8 reactComponent = statements [
     on (member (Some reactComponent) [''integration'', ''events''])
        (\<lambda>v. assertExists v ''events field missing''),
     on (member (Some reactComponent) [''integration'', ''events'', ''mount''])
        (\<lambda>v. assertExists v ''mount event missing''),
     on (member (Some reactComponent) [''integration'', ''events'', ''unmount''])
        (\<lambda>v. assertExists v ''unmount event missing''),
     on (member (Some reactComponent) [''integration'', ''events'', ''error''])
        (\<lambda>v. assertExists v ''error event missing'')]\<close>

text \<open>What the suite prints, and the counters of \<^verbatim>\<open>runTests\<close>.\<close>

datatype tmsg =
    Running
  | Passed string
  | Threw string exn
  | Results nat nat
  | AllTestsPassed
  | SomeTestsFailed
  | SuiteFailed exn

record suite =
  tlog :: "(level \<times> tmsg) list"
  testCount :: nat
  passedCount :: nat

record tested =
  shown :: "(level \<times> tmsg) list"
  code :: nat

text \<open>The inner function \<^verbatim>\<open>test(name, testFn)\<close>, given what calling \<^verbatim>\<open>testFn\<close> does.\<close>

definition test :: "suite \<Rightarrow> string \<times> (exn + unit) \<Rightarrow> suite" where
  "test s t =
     (let s1 = s\<lparr>testCount := testCount s + 1\<rparr>
      in case snd t of
           Inr u \<Rightarrow> s1\<lparr>tlog := tlog s1 @ [(Log, Passed (fst t))], passedCount := passedCount s1 + 1\<rparr>
         | Inl e \<Rightarrow> s1\<lparr>tlog := tlog s1 @ [(Error, Threw (fst t) e)]\<rparr>)"

text \<open>The eight calls of \<^verbatim>\<open>test\<close>, in the order of the source.\<close>

definition the_tests :: "json \<Rightarrow> json \<Rightarrow> (string \<times> (exn + unit)) list" where
  "the_tests reactComponent index =
     [(''React component has required metadata fields'', test1 reactComponent),
      (''React component has proper UI configuration'', test2 reactComponent),
      (''React component has proper integration configuration'', test3 reactComponent),
      (''React component has proper template structure for external plugins'', test4 reactComponent),
      (''React component has proper plugin interactions'', test5 reactComponent),
      (''Index file includes React component'', test6 index),
      (''React component has proper canvas integration'', test7 reactComponent),
      (''React component has proper event definitions'', test8 reactComponent)]"

text \<open>
  \<^verbatim>\<open>loadReactComponent\<close> and \<^verbatim>\<open>loadIndex\<close>: the argument is what lies at the path,
  \<open>None\<close> when nothing does.
\<close>

definition loadJson :: "(string \<Rightarrow> json option) \<Rightarrow> node option \<Rightarrow> string \<Rightarrow> exn + json" where
  "loadJson parse file notFound =
     (case file of
        None \<Rightarrow> Inl (Failed notFound)
      | Some (Dir sub) \<Rightarrow> Inl EISDIR
      | Some (File content) \<Rightarrow> (case parse content of None \<Rightarrow> Inl SyntaxError | Some v \<Rightarrow> Inr v))"

definition loadReactComponent :: "(string \<Rightarrow> json option) \<Rightarrow> node option \<Rightarrow> exn + json" where
  "loadReactComponent parse file = loadJson parse file ''React component file not found''"

definition loadIndex :: "(string \<Rightarrow> json option) \<Rightarrow> node option \<Rightarrow> exn + json" where
  "loadIndex parse file = loadJson parse file ''Index file not found''"

text \<open>
  \<^verbatim>\<open>runTests\<close> returns what it printed with its result, \<open>Inl\<close> when it threw. The main
  block turns that into the exit status.
\<close>

definition runTests ::
  "(string \<Rightarrow> json option) \<Rightarrow> node option \<Rightarrow> node option \<Rightarrow> (level \<times> tmsg) list \<times> (exn + bool)" where
  "runTests parse reactFile indexFile =
     (let s0 = \<lparr>tlog = [(Log, Running)], testCount = 0, passedCount = 0\<rparr>
      in case loadReactComponent parse reactFile of
           Inl e \<Rightarrow> (tlog s0, Inl e)
         | Inr reactComponent \<Rightarrow>
             (case loadIndex parse indexFile of
                Inl e \<Rightarrow> (tlog s0, Inl e)
              | Inr index \<Rightarrow>
                  let s = foldl test s0 (the_tests reactComponent index);
                      l = tlog s @ [(Log, Results (passedCount s) (testCount s))]
                  in if passedCount s = testCount s
                     then (l @ [(Log, AllTestsPassed)], Inr True)
                     else (l @ [(Log, SomeTestsFailed)], Inr False)))"

definition main :: "(string \<Rightarrow> json option) \<Rightarrow> node option \<Rightarrow> node option \<Rightarrow> tested" where
  "main parse reactFile indexFile =
     (case runTests parse reactFile indexFile of
        (l, Inr success) \<Rightarrow> \<lparr>shown = l, code = (if success then 0 else 1)\<rparr>
      | (l, Inl e) \<Rightarrow> \<lparr>shown = l @ [(Error, SuiteFailed e)], code = 1\<rparr>)"

section \<open>Notions used to state the properties\<close>

text \<open>
  The field of a document at a path of keys: \<open>None\<close> when a key on the way is not there
  or is looked up in something that is not an object.
\<close>

fun at :: "json \<Rightarrow> string list \<Rightarrow> json option" where
  "at v [] = Some v"
| "at (JObj kvs) (k # ks) = (case map_of kvs k of None \<Rightarrow> None | Some w \<Rightarrow> at w ks)"
| "at v (k # ks) = None"

text \<open>A field that is there with a value other than \<^verbatim>\<open>null\<close>.\<close>

definition present :: "json \<Rightarrow> string list \<Rightarrow> bool" where
  "present v ks = (case at v ks of None \<Rightarrow> False | Some w \<Rightarrow> w \<noteq> JNull)"

text \<open>The document with the field at a path replaced, and nothing else changed.\<close>

primrec set_at :: "string list \<Rightarrow> json \<Rightarrow> json \<Rightarrow> json" where
  "set_at [] new v = new"
| "set_at (k # ks) new v =
     (case v of
        JObj kvs \<Rightarrow> JObj (map (\<lambda>kv. if fst kv = k then (fst kv, set_at ks new (snd kv)) else kv) kvs)
      | _ \<Rightarrow> v)"

text \<open>
  What one turn of the validation loop adds for a file: the lines it prints and whether
  it raises \<^verbatim>\<open>hasErrors\<close>.
\<close>

definition report :: "(string \<Rightarrow> json option) \<Rightarrow> (string \<times> node) list \<Rightarrow> string \<Rightarrow> run" where
  "report parse items componentFile =
     validate_component parse items \<lparr>out = [], hasErrors = False\<rparr> componentFile"

definition extend :: "run \<Rightarrow> run \<Rightarrow> run" where
  "extend s r = \<lparr>out = out s @ out r, hasErrors = hasErrors s \<or> hasErrors r\<rparr>"

definition empty_run :: run where
  "empty_run = \<lparr>out = [], hasErrors = False\<rparr>"

text \<open>
  The components an index declares when it passes the checks made of it: the index file
  loads, its \<^verbatim>\<open>version\<close> is truthy and its \<^verbatim>\<open>components\<close> is an array.
\<close>

definition index_components ::
  "(string \<Rightarrow> json option) \<Rightarrow> (string \<times> node) list \<Rightarrow> json list option" where
  "index_components parse items =
     (case load parse items ''index.json'' of
        Inl e \<Rightarrow> None
      | Inr indexData \<Rightarrow>
          if truthy (at indexData [''version''])
          then (case at indexData [''components''] of Some (JArr cs) \<Rightarrow> Some cs | _ \<Rightarrow> None)
          else None)"

text \<open>
  A directory tree as a file system keeps it: in each directory the names are distinct,
  and a name is not empty and holds no separator.
\<close>

definition wf_name :: "string \<Rightarrow> bool" where
  "wf_name item = (item \<noteq> [] \<and> CHR ''/'' \<notin> set item \<and> CHR 0x5C \<notin> set item)"

function wf_tree :: "(string \<times> node) list \<Rightarrow> bool" where
  "wf_tree [] = True"
| "wf_tree ((item, Dir sub) # items) =
     (wf_name item \<and> item \<notin> set (map fst items) \<and> wf_tree sub \<and> wf_tree items)"
| "wf_tree ((item, File text) # items) =
     (wf_name item \<and> item \<notin> set (map fst items) \<and> wf_tree items)"
  by pat_completeness auto
termination
  by (relation "measure (\<lambda>items. size_list (size_prod (\<lambda>n. 0) size) items)") auto


fun join_path :: "string list \<Rightarrow> string" where
  "join_path [] = []"
| "join_path [s] = s"
| "join_path (s # t # ss) = s @ ''/'' @ join_path (t # ss)"

text \<open>
  A component file on disk: a file under the components directory, reached through the
  directories \<open>segs\<close> names, whose own name ends in \<^verbatim>\<open>.json\<close> and is not
  \<^verbatim>\<open>index.json\<close>. Its relative path is \<open>join_path segs\<close>. An entry of the index names a
  component file when it is the relative path of one.
\<close>

definition component_file :: "(string \<times> node) list \<Rightarrow> string list \<Rightarrow> string \<Rightarrow> bool" where
  "component_file items segs body \<longleftrightarrow>
     segs \<noteq> [] \<and> lookup_path items segs = Some (File body)
     \<and> endsWith (last segs) ''.json'' \<and> last segs \<noteq> ''index.json''"

fun names_component_file :: "(string \<times> node) list \<Rightarrow> json \<Rightarrow> bool" where
  "names_component_file items (JStr p) =
     (case lookup_path items (split_path p) of
        Some (File body) \<Rightarrow>
          endsWith (last (split_path p)) ''.json'' \<and> last (split_path p) \<noteq> ''index.json''
      | _ \<Rightarrow> False)"
| "names_component_file items v = False"

text \<open>
  The fields the structure checks report as missing; whether the sort of the entries of
  the index completes, and the sorted entries when it does; the lines the comparison of
  the two lists prints, the lines the loop over the files prints, and whether the run
  raises \<^verbatim>\<open>hasErrors\<close> after the index has passed its checks.
\<close>

definition missing_fields :: "json \<Rightarrow> string list" where
  "missing_fields d =
     (if \<not> truthy (at d [''metadata'']) then [''metadata'']
      else (if \<not> truthy (at d [''metadata'', ''type'']) then [''metadata.type''] else [])
         @ (if \<not> truthy (at d [''metadata'', ''name'']) then [''metadata.name''] else []))
   @ (if \<not> truthy (at d [''ui'']) then [''ui'']
      else (if \<not> truthy (at d [''ui'', ''template'']) then [''ui.template''] else []))
   @ (if \<not> truthy (at d [''integration'']) then [''integration''] else [])"

definition sorts :: "json list \<Rightarrow> bool" where
  "sorts components = (case declaredFiles components of Inl e \<Rightarrow> False | Inr ds \<Rightarrow> True)"

definition declared :: "json list \<Rightarrow> json list" where
  "declared components = (case declaredFiles components of Inl e \<Rightarrow> [] | Inr ds \<Rightarrow> ds)"

definition compare_lines :: "(string \<times> node) list \<Rightarrow> json list \<Rightarrow> (level \<times> msg) list" where
  "compare_lines items cs =
     [(Log, Found (length (actualFiles items))), (Log, Declares (length (declared cs)))]
     @ (if missingFromIndex (actualFiles items) (declared cs) \<noteq> []
        then [(Warn, NotListed (missingFromIndex (actualFiles items) (declared cs))),
              (Warn, NotListedHint)]
        else [])
     @ (if staleInIndex (actualFiles items) (declared cs) \<noteq> []
        then [(Error, Stale (staleInIndex (actualFiles items) (declared cs)))] else [])"

definition file_lines :: "(string \<Rightarrow> json option) \<Rightarrow> (string \<times> node) list \<Rightarrow> (level \<times> msg) list" where
  "file_lines parse items = concat (map (\<lambda>f. out (report parse items f)) (actualFiles items))"

definition any_errors :: "(string \<Rightarrow> json option) \<Rightarrow> (string \<times> node) list \<Rightarrow> json list \<Rightarrow> bool" where
  "any_errors parse items cs =
     (staleInIndex (actualFiles items) (declared cs) \<noteq> []
      \<or> (\<exists>f\<in>set (actualFiles items). hasErrors (report parse items f)))"

text \<open>The name under which the script reports a field, from the keys that lead to it.\<close>

fun dotted :: "string list \<Rightarrow> string" where
  "dotted [] = []"
| "dotted [k] = k"
| "dotted (k # l # ks) = k @ ''.'' @ dotted (l # ks)"

text \<open>The six fields the validator requires of a component, as paths of keys.\<close>

definition required_fields :: "string list list" where
  "required_fields = [[''metadata''], [''metadata'', ''type''], [''metadata'', ''name''],
     [''ui''], [''ui'', ''template''], [''integration'']]"

text \<open>
  A valid document: a topic definition, or a component with every required field truthy.
  A valid text is one that parses to a valid document.
\<close>

definition valid_document :: "json \<Rightarrow> bool" where
  "valid_document d \<longleftrightarrow>
     d \<noteq> JNull
     \<and> (truthy (at d [''topics'']) \<or> truthy (at d [''definitions''])
        \<or> list_all (\<lambda>field. truthy (at d field)) required_fields)"

definition valid_text :: "(string \<Rightarrow> json option) \<Rightarrow> string \<Rightarrow> bool" where
  "valid_text parse body = (case parse body of None \<Rightarrow> False | Some d \<Rightarrow> valid_document d)"

text \<open>
  For the test suite: whether a value holds a text the way \<^verbatim>\<open>includes\<close> finds it, the
  line \<^verbatim>\<open>test\<close> prints for a check, whether a check passes, and what each of the eight
  checks asks of the documents.
\<close>

fun has_text :: "jsval \<Rightarrow> string \<Rightarrow> bool" where
  "has_text (Some (JStr s)) x = str_includes s x"
| "has_text (Some (JArr xs)) x = (JStr x \<in> set xs)"
| "has_text v x = False"

definition test_line :: "string \<times> (exn + unit) \<Rightarrow> level \<times> tmsg" where
  "test_line t = (case snd t of Inr u \<Rightarrow> (Log, Passed (fst t)) | Inl e \<Rightarrow> (Error, Threw (fst t) e))"

definition passes :: "string \<times> (exn + unit) \<Rightarrow> bool" where
  "passes t = (case snd t of Inr u \<Rightarrow> True | Inl e \<Rightarrow> False)"

definition shape1 :: "json \<Rightarrow> bool" where
  "shape1 d \<longleftrightarrow>
     at d [''metadata'', ''type''] = Some (JStr ''react'')
   \<and> at d [''metadata'', ''name''] = Some (JStr ''React'')
   \<and> present d [''metadata'', ''version'']
   \<and> present d [''metadata'', ''description'']
   \<and> isArray (at d [''metadata'', ''tags''])
   \<and> has_text (at d [''metadata'', ''tags'']) ''react''"

definition shape2 :: "json \<Rightarrow> bool" where
  "shape2 d \<longleftrightarrow>
     present d [''ui'', ''template'']
   \<and> present d [''ui'', ''styles'']
   \<and> at d [''ui'', ''icon'', ''value''] = Some (JStr react_emoji)
   \<and> present d [''ui'', ''tools'']
   \<and> truthy (at d [''ui'', ''tools'', ''drag'', ''enabled''])
   \<and> truthy (at d [''ui'', ''tools'', ''resize'', ''enabled''])"

definition shape3 :: "json \<Rightarrow> bool" where
  "shape3 d \<longleftrightarrow>
     at d [''integration'', ''properties'', ''schema'', ''code'', ''type''] = Some (JStr ''string'')
   \<and> present d [''integration'', ''properties'', ''schema'', ''code'', ''default'']
   \<and> has_text (at d [''integration'', ''properties'', ''schema'', ''code'', ''default''])
         ''export default function''
   \<and> at d [''integration'', ''properties'', ''schema'', ''code'', ''ui'', ''control'']
         = Some (JStr ''code'')"

definition shape4 :: "json \<Rightarrow> bool" where
  "shape4 d \<longleftrightarrow>
     at d [''template'', ''render'', ''strategy''] = Some (JStr ''react'')
   \<and> present d [''template'', ''react'', ''code'']
   \<and> isArray (at d [''template'', ''classes''])
   \<and> has_text (at d [''template'', ''classes'']) ''rx-comp''
   \<and> has_text (at d [''template'', ''classes'']) ''rx-react''"

definition shape5 :: "json \<Rightarrow> bool" where
  "shape5 d \<longleftrightarrow>
     at d [''interactions'', ''canvas.component.create'', ''pluginId'']
       = Some (JStr ''CanvasComponentPlugin'')
   \<and> at d [''interactions'', ''canvas.component.create'', ''sequenceId'']
       = Some (JStr ''canvas-component-create-symphony'')"

definition index_lists_react :: "json \<Rightarrow> bool" where
  "index_lists_react index \<longleftrightarrow>
     isArray (at index [''components'']) \<and> has_text (at index [''components'']) ''react.json''"

definition shape7 :: "json \<Rightarrow> bool" where
  "shape7 d \<longleftrightarrow>
     present d [''integration'', ''canvasIntegration'']
   \<and> truthy (at d [''integration'', ''canvasIntegration'', ''resizable''])
   \<and> truthy (at d [''integration'', ''canvasIntegration'', ''draggable''])
   \<and> truthy (at d [''integration'', ''canvasIntegration'', ''selectable''])
   \<and> typeof (at d [''integration'', ''canvasIntegration'', ''defaultWidth'']) = ''number''
   \<and> typeof (at d [''integration'', ''canvasIntegration'', ''defaultHeight'']) = ''number''"

definition shape8 :: "json \<Rightarrow> bool" where
  "shape8 d \<longleftrightarrow>
     present d [''integration'', ''events'', ''mount'']
   \<and> present d [''integration'', ''events'', ''unmount'']
   \<and> present d [''integration'', ''events'', ''error'']"

definition expected_shape :: "json \<Rightarrow> bool" where
  "expected_shape d \<longleftrightarrow>
     shape1 d \<and> shape2 d \<and> shape3 d \<and> shape4 d \<and> shape5 d \<and> shape7 d \<and> shape8 d"

section \<open>Example catalogs\<close>

text \<open>
  A parser given as a table from the texts of a few small files to the documents they
  denote, and catalogs built from these files.
\<close>

definition button_doc :: json where
  "button_doc = JObj [(''metadata'', JObj [(''type'', JStr ''button''), (''name'', JStr ''Button'')]),
     (''ui'', JObj [(''template'', JObj [])]), (''integration'', JObj [])]"

definition card_without_type :: json where
  "card_without_type = JObj [(''metadata'', JObj [(''name'', JStr ''Card'')]),
     (''ui'', JObj [(''template'', JObj [])]), (''integration'', JObj [])]"

definition card_empty_type :: json where
  "card_empty_type = JObj [(''metadata'', JObj [(''type'', JStr []), (''name'', JStr ''Card'')]),
     (''ui'', JObj [(''template'', JObj [])]), (''integration'', JObj [])]"

definition index_doc :: "json \<Rightarrow> string list \<Rightarrow> json" where
  "index_doc version files = JObj [(''version'', version), (''components'', JArr (map JStr files))]"

definition card_doc :: json where
  "card_doc = JObj [(''metadata'', JObj [(''type'', JStr ''card''), (''name'', JStr ''Card'')]),
     (''ui'', JObj [(''template'', JObj [])]), (''integration'', JObj [])]"

definition crash_index_doc :: json where
  "crash_index_doc = JObj [(''version'', JStr ''1.0.0''),
     (''components'', JArr [JObj [(''toString'', JNum 1)], JStr ''card.json''])]"

definition example_parse :: "string \<Rightarrow> json option" where
  \<open>example_parse = map_of [
     (''{"version":"1.0.0","components":["button.json"]}'',
        index_doc (JStr ''1.0.0'') [''button.json'']),
     (''{"version":"1.0.0","components":["button.json","card.json"]}'',
        index_doc (JStr ''1.0.0'') [''button.json'', ''card.json'']),
     (''{"version":"1.0.0","components":["card.json","button.json"]}'',
        index_doc (JStr ''1.0.0'') [''card.json'', ''button.json'']),
     (''{"version":"1.0.0","components":["button.json","cards/card.json"]}'',
        index_doc (JStr ''1.0.0'') [''button.json'', ''cards/card.json'']),
     (''{"version":"1.0.0","components":[{"toString":1},"card.json"]}'',
        crash_index_doc),
     (''{"version":"","components":["button.json"]}'',
        index_doc (JStr []) [''button.json'']),
     (''{"metadata":{"type":"button","name":"Button"},"ui":{"template":{}},"integration":{}}'',
        button_doc),
     (''{"metadata":{"type":"card","name":"Card"},"ui":{"template":{}},"integration":{}}'',
        card_doc),
     (''{"metadata":{"name":"Card"},"ui":{"template":{}},"integration":{}}'',
        card_without_type),
     (''{"metadata":{"type":"","name":"Card"},"ui":{"template":{}},"integration":{}}'',
        card_empty_type),
     (''{}'', JObj []),
     (''{"topics":{}}'', JObj [(''topics'', JObj [])]),
     (''{"topics":null}'', JObj [(''topics'', JNull)])]\<close>

definition index_entry :: "string list \<Rightarrow> string \<times> node" where
  \<open>index_entry files =
     (''index.json'',
      File (''{"version":"1.0.0","components":['' @ join_commas (map (\<lambda>f. ''"'' @ f @ ''"'') files) @ '']}''))\<close>

definition button_entry :: "string \<times> node" where
  \<open>button_entry = (''button.json'',
     File ''{"metadata":{"type":"button","name":"Button"},"ui":{"template":{}},"integration":{}}'')\<close>

definition card_entry :: "string \<times> node" where
  \<open>card_entry = (''card.json'',
     File ''{"metadata":{"type":"card","name":"Card"},"ui":{"template":{}},"integration":{}}'')\<close>


definition card_empty_type_entry :: "string \<times> node" where
  \<open>card_empty_type_entry = (''card.json'',
     File ''{"metadata":{"type":"","name":"Card"},"ui":{"template":{}},"integration":{}}'')\<close>







definition catalog_extra :: "(string \<times> node) list" where
  "catalog_extra = [index_entry [''button.json''], button_entry, (''notes.txt'', File ''draft''),
     (''drafts'', Dir [(''todo.md'', File ''later''), card_entry])]"

definition catalog_extra_bad_index :: "(string \<times> node) list" where
  \<open>catalog_extra_bad_index =
     [(''index.json'', File ''{"version":"","components":["button.json"]}''), button_entry,
      (''drafts'', Dir [card_entry])]\<close>

definition catalog_backslash :: "(string \<times> node) list" where
  \<open>catalog_backslash = [index_entry [''button.json''], button_entry,
     (''a'' @ [CHR 0x5C] @ ''b.json'',
      File ''{"metadata":{"type":"card","name":"Card"},"ui":{"template":{}},"integration":{}}'')]\<close>

definition catalog_bad_index :: "(string \<times> node) list" where
  \<open>catalog_bad_index =
     [(''index.json'', File ''{"version":"","components":["button.json"]}''), button_entry,
      card_empty_type_entry]\<close>

definition catalog_empty_type :: "(string \<times> node) list" where
  "catalog_empty_type = [index_entry [''button.json'', ''cards/card.json''], button_entry,
     (''README.md'', File ''notes''), (''cards'', Dir [card_empty_type_entry])]"

definition catalog_no_version :: "(string \<times> node) list" where
  \<open>catalog_no_version =
     [(''index.json'', File ''{"version":"","components":["button.json"]}''), button_entry]\<close>


definition catalog_sorted :: "(string \<times> node) list" where
  "catalog_sorted = [index_entry [''button.json'', ''card.json''], button_entry, card_entry]"

definition catalog_reversed :: "(string \<times> node) list" where
  "catalog_reversed = [index_entry [''card.json'', ''button.json''], button_entry, card_entry]"

text \<open>
  A document with everything the suite asks for, given with the text of its file and with
  the render strategy left open; a document with only three of the fields; an index that
  lists \<^verbatim>\<open>react.json\<close>; and a parser that knows these texts.
\<close>

definition react_doc :: "string \<Rightarrow> json" where
  "react_doc strategy =
     JObj [
       (''metadata'', JObj [
         (''type'', JStr ''react''),
         (''name'', JStr ''React''),
         (''version'', JStr ''1.0.0''),
         (''description'', JStr ''React wrapper''),
         (''tags'', JArr [JStr ''react''])]),
       (''ui'', JObj [
         (''template'', JObj []),
         (''styles'', JObj []),
         (''icon'', JObj [(''value'', JStr react_emoji)]),
         (''tools'', JObj [
           (''drag'', JObj [(''enabled'', JBool True)]),
           (''resize'', JObj [(''enabled'', JBool True)])])]),
       (''integration'', JObj [
         (''properties'', JObj [
           (''schema'', JObj [
             (''code'', JObj [
               (''type'', JStr ''string''),
               (''default'', JStr ''export default function App() {}''),
               (''ui'', JObj [(''control'', JStr ''code'')])])])]),
         (''canvasIntegration'', JObj [
           (''resizable'', JBool True),
           (''draggable'', JBool True),
           (''selectable'', JBool True),
           (''defaultWidth'', JNum 300),
           (''defaultHeight'', JNum 200)]),
         (''events'', JObj [(''mount'', JObj []), (''unmount'', JObj []), (''error'', JObj [])])]),
       (''template'', JObj [
         (''render'', JObj [(''strategy'', JStr strategy)]),
         (''react'', JObj [(''code'', JStr ''App'')]),
         (''classes'', JArr [JStr ''rx-comp'', JStr ''rx-react''])]),
       (''interactions'', JObj [
         (''canvas.component.create'', JObj [
           (''pluginId'', JStr ''CanvasComponentPlugin''),
           (''sequenceId'', JStr ''canvas-component-create-symphony'')])])]"

definition react_text :: "string \<Rightarrow> string" where
  \<open>react_text strategy =
     ''{"metadata":{"type":"react","name":"React","version":"1.0.0","descript''
     @ ''ion":"React wrapper","tags":["react"]},"ui":{"template":{},"styles":{}''
     @ '',"icon":{"value":"''
     @ react_emoji
     @ ''"},"tools":{"drag":{"enabled":true},"resize":{"enabled":true}}},"integ''
     @ ''ration":{"properties":{"schema":{"code":{"type":"string","default":"ex''
     @ ''port default function App() {}","ui":{"control":"code"}}}},"canvasInte''
     @ ''gration":{"resizable":true,"draggable":true,"selectable":true,"default''
     @ ''Width":300,"defaultHeight":200},"events":{"mount":{},"unmount":{},"err''
     @ ''or":{}}},"template":{"render":{"strategy":"''
     @ strategy
     @ ''"},"react":{"code":"App"},"classes":["rx-comp","rx-react"]},"interacti''
     @ ''ons":{"canvas.component.create":{"pluginId":"CanvasComponentPlugin","s''
     @ ''equenceId":"canvas-component-create-symphony"}}}''\<close>

definition partial_doc :: json where
  "partial_doc =
     JObj [
       (''metadata'', JObj [(''type'', JStr ''react'')]),
       (''ui'', JObj [(''icon'', JObj [(''value'', JStr react_emoji)])]),
       (''template'', JObj [(''classes'', JArr [JStr ''rx-comp'', JStr ''rx-react''])])]"

definition partial_text :: string where
  \<open>partial_text =
     ''{"metadata":{"type":"react"},"ui":{"icon":{"value":"''
     @ react_emoji
     @ ''"}},"template":{"classes":["rx-comp","rx-react"]}}''\<close>

definition react_index_text :: string where
  \<open>react_index_text = ''{"version":"1.0.0","components":["react.json"]}''\<close>

definition suite_parse :: "string \<Rightarrow> json option" where
  "suite_parse = map_of [
     (react_text ''react'', react_doc ''react''),
     (react_text ''vue'', react_doc ''vue''),
     (partial_text, partial_doc),
     (react_index_text, index_doc (JStr ''1.0.0'') [''react.json''])]"

section \<open>The validator: how a run is put together\<close>

lemmas run_defs = extend_def empty_run_def say_def fail_def

lemma check_metadata_extend:
  "check_metadata f d s = (extend s (fst (check_metadata f d empty_run)), snd (check_metadata f d empty_run))"
  unfolding check_metadata_def Let_def
  by (simp add: run_defs split: sum.splits)

lemma check_ui_extend:
  "check_ui f d s = (extend s (fst (check_ui f d empty_run)), snd (check_ui f d empty_run))"
  unfolding check_ui_def Let_def
  by (simp add: run_defs split: sum.splits)

lemma check_integration_extend:
  "check_integration f d s = (extend s (fst (check_integration f d empty_run)), snd (check_integration f d empty_run))"
  unfolding check_integration_def Let_def
  by (simp add: run_defs split: sum.splits)

lemma check_structure_extend:
  "check_structure f d s = (extend s (fst (check_structure f d empty_run)), snd (check_structure f d empty_run))"
proof -
  obtain a ea where A: "check_metadata f d empty_run = (a, ea)" by force
  obtain b eb where B: "check_ui f d empty_run = (b, eb)" by force
  obtain c ec where C: "check_integration f d empty_run = (c, ec)" by force
  have A': "check_metadata f d t = (extend t a, ea)" for t
    using check_metadata_extend [of f d t] A by simp
  have B': "check_ui f d t = (extend t b, eb)" for t
    using check_ui_extend [of f d t] B by simp
  have C': "check_integration f d t = (extend t c, ec)" for t
    using check_integration_extend [of f d t] C by simp
  show ?thesis
    unfolding check_structure_def A' B' C'
    by (cases ea; cases eb) (simp_all add: extend_def empty_run_def)
qed

lemma try_component_extend:
  "try_component parse items f s = (extend s (fst (try_component parse items f empty_run)), snd (try_component parse items f empty_run))"
  unfolding try_component_def
  apply (subst check_structure_extend)
  by (simp add: run_defs split: sum.splits)

lemma validate_component_report:
  "validate_component parse items s f = extend s (report parse items f)"
  unfolding validate_component_def report_def
  apply (subst try_component_extend)
  by (simp add: run_defs split: prod.splits option.splits)

lemma foldl_validate_component:
  "foldl (validate_component parse items) s fs =
     \<lparr>out = out s @ concat (map (\<lambda>f. out (report parse items f)) fs),
      hasErrors = hasErrors s \<or> (\<exists>f\<in>set fs. hasErrors (report parse items f))\<rparr>"
proof (induction fs arbitrary: s)
  case Nil
  then show ?case by simp
next
  case (Cons f fs)
  have "foldl (validate_component parse items) s (f # fs)
        = foldl (validate_component parse items) (validate_component parse items s f) fs"
    by simp
  also have "\<dots> = \<lparr>out = out (validate_component parse items s f)
                        @ concat (map (\<lambda>f. out (report parse items f)) fs),
                    hasErrors = hasErrors (validate_component parse items s f)
                        \<or> (\<exists>f\<in>set fs. hasErrors (report parse items f))\<rparr>"
    by (rule Cons.IH)
  also have "\<dots> = \<lparr>out = out s @ concat (map (\<lambda>f. out (report parse items f)) (f # fs)),
                    hasErrors = hasErrors s \<or> (\<exists>f\<in>set (f # fs). hasErrors (report parse items f))\<rparr>"
    by (simp add: validate_component_report extend_def)
  finally show ?case .
qed

lemma get_at: "d \<noteq> JNull \<Longrightarrow> get (Some d) k = Inr (at d [k])"
  by (cases d) (simp_all split: option.splits)

lemma truthy_not_null: "truthy (Some d) \<Longrightarrow> d \<noteq> JNull"
  by (cases d) simp_all

lemma at_Cons: "at d [k] = Some m \<Longrightarrow> at d (k # ks) = at m ks"
  by (cases d) (simp_all split: option.splits)

lemma at_Cons_None: "at d [k] = None \<Longrightarrow> at d (k # ks) = None"
  by (cases d) (simp_all split: option.splits)

lemma get_truthy: "truthy m \<Longrightarrow> \<exists>mv. m = Some mv \<and> mv \<noteq> JNull \<and> get m k = Inr (at mv [k])"
  by (cases m) (auto simp: get_at truthy_not_null)

lemma topics_or_definitions_null: "topics_or_definitions JNull = Inl TypeError"
  by (simp add: topics_or_definitions_def)

lemma topics_or_definitions_at:
  "d \<noteq> JNull \<Longrightarrow> topics_or_definitions d
     = Inr (if truthy (at d [''topics'']) then at d [''topics''] else at d [''definitions''])"
  by (simp add: topics_or_definitions_def get_at)

lemma check_metadata_at:
  assumes "d \<noteq> JNull"
  shows "check_metadata f d empty_run =
     (\<lparr>out = map (\<lambda>x. (Error, Missing f x))
         (if \<not> truthy (at d [''metadata'']) then [''metadata'']
          else (if \<not> truthy (at d [''metadata'', ''type'']) then [''metadata.type''] else [])
             @ (if \<not> truthy (at d [''metadata'', ''name'']) then [''metadata.name''] else [])),
       hasErrors = \<not> truthy (at d [''metadata'']) \<or> \<not> truthy (at d [''metadata'', ''type''])
          \<or> \<not> truthy (at d [''metadata'', ''name''])\<rparr>, None)"
proof (cases "truthy (at d [''metadata''])")
  case False
  then show ?thesis
    by (simp add: check_metadata_def get_at [OF assms] run_defs)
next
  case True
  then obtain mv where m: "at d [''metadata''] = Some mv" "mv \<noteq> JNull"
    using get_truthy by blast
  show ?thesis
    using True m
    by (simp add: check_metadata_def get_at [OF assms] get_at [OF m(2)] at_Cons [OF m(1)] run_defs Let_def)
qed

lemma check_ui_at:
  assumes "d \<noteq> JNull"
  shows "check_ui f d empty_run =
     (\<lparr>out = map (\<lambda>x. (Error, Missing f x))
         (if \<not> truthy (at d [''ui'']) then [''ui'']
          else (if \<not> truthy (at d [''ui'', ''template'']) then [''ui.template''] else [])),
       hasErrors = \<not> truthy (at d [''ui'']) \<or> \<not> truthy (at d [''ui'', ''template''])\<rparr>, None)"
proof (cases "truthy (at d [''ui''])")
  case False
  then show ?thesis
    by (simp add: check_ui_def get_at [OF assms] run_defs)
next
  case True
  then obtain mv where m: "at d [''ui''] = Some mv" "mv \<noteq> JNull"
    using get_truthy by blast
  show ?thesis
    using True m
    by (simp add: check_ui_def get_at [OF assms] get_at [OF m(2)] at_Cons [OF m(1)] run_defs Let_def)
qed

lemma check_integration_at:
  assumes "d \<noteq> JNull"
  shows "check_integration f d empty_run =
     (\<lparr>out = map (\<lambda>x. (Error, Missing f x))
         (if \<not> truthy (at d [''integration'']) then [''integration''] else []),
       hasErrors = \<not> truthy (at d [''integration''])\<rparr>, None)"
  by (simp add: check_integration_def get_at [OF assms] run_defs)

lemma check_structure_at:
  assumes "d \<noteq> JNull"
  shows "check_structure f d empty_run =
     (\<lparr>out = map (\<lambda>x. (Error, Missing f x)) (missing_fields d),
       hasErrors = (missing_fields d \<noteq> [])\<rparr>, None)"
  unfolding check_structure_def check_metadata_at [OF assms]
  apply (simp only: prod.case option.case)
  apply (subst check_ui_extend)
  apply (simp only: check_ui_at [OF assms] prod.case option.case fst_conv snd_conv)
  apply (subst check_integration_extend)
  apply (simp only: check_integration_at [OF assms] prod.case option.case fst_conv snd_conv)
  by (simp add: extend_def missing_fields_def)


lemma report_load_fails:
  "load parse items f = Inl e \<Longrightarrow>
     report parse items f = \<lparr>out = [(Error, InvalidFile f e)], hasErrors = True\<rparr>"
  by (simp add: report_def validate_component_def try_component_def run_defs)

lemma report_null:
  "load parse items f = Inr JNull \<Longrightarrow>
     report parse items f = \<lparr>out = [(Error, InvalidFile f TypeError)], hasErrors = True\<rparr>"
  by (simp add: report_def validate_component_def try_component_def topics_or_definitions_null run_defs)

lemma report_document:
  assumes "load parse items f = Inr d" "d \<noteq> JNull"
  shows "report parse items f =
     (if truthy (at d [''topics'']) \<or> truthy (at d [''definitions''])
      then \<lparr>out = [(Log, Skipping f)], hasErrors = False\<rparr>
      else \<lparr>out = map (\<lambda>x. (Error, Missing f x)) (missing_fields d),
            hasErrors = (missing_fields d \<noteq> [])\<rparr>)"
  using assms check_structure_at [OF assms(2), of f]
  by (simp add: report_def validate_component_def try_component_def topics_or_definitions_at
      say_def empty_run_def)

lemma report_cases:
  obtains (unreadable) e where "load parse items f = Inl e"
      "report parse items f = \<lparr>out = [(Error, InvalidFile f e)], hasErrors = True\<rparr>"
  | (null) "load parse items f = Inr JNull"
      "report parse items f = \<lparr>out = [(Error, InvalidFile f TypeError)], hasErrors = True\<rparr>"
  | (skipped) d where "load parse items f = Inr d" "d \<noteq> JNull"
      "truthy (at d [''topics'']) \<or> truthy (at d [''definitions''])"
      "report parse items f = \<lparr>out = [(Log, Skipping f)], hasErrors = False\<rparr>"
  | (checked) d where "load parse items f = Inr d" "d \<noteq> JNull"
      "\<not> truthy (at d [''topics''])" "\<not> truthy (at d [''definitions''])"
      "report parse items f = \<lparr>out = map (\<lambda>x. (Error, Missing f x)) (missing_fields d),
            hasErrors = (missing_fields d \<noteq> [])\<rparr>"
proof (cases "load parse items f")
  case (Inl e)
  then show ?thesis using unreadable report_load_fails by blast
next
  case (Inr d)
  show ?thesis
  proof (cases "d = JNull")
    case True
    then show ?thesis using Inr null report_null by blast
  next
    case False
    show ?thesis
    proof (cases "truthy (at d [''topics'']) \<or> truthy (at d [''definitions''])")
      case True
      then show ?thesis using skipped [OF Inr False True] report_document [OF Inr False] by simp
    next
      case no: False
      then show ?thesis using checked [OF Inr False] report_document [OF Inr False] by simp
    qed
  qed
qed

lemma report_hasErrors: "hasErrors (report parse items f) = (\<exists>x\<in>set (out (report parse items f)). fst x = Error)"
  by (cases f rule: report_cases [of parse items]) (auto simp: image_iff intro: hd_in_set)

lemma report_tagged_Missing:
  "(l, Missing f x) \<in> set (out (report parse items g)) \<Longrightarrow> g = f"
  by (cases g rule: report_cases [of parse items]) auto


lemma count_components_ok:
  "\<forall>f\<in>set fs. \<not> hasErrors (report parse items f) \<Longrightarrow>
     \<exists>n. count_components parse items fs k = Inr n"
proof (induction fs arbitrary: k)
  case Nil
  then show ?case by simp
next
  case (Cons f fs)
  from Cons.prems have ok: "\<not> hasErrors (report parse items f)" by simp
  then obtain d where d: "load parse items f = Inr d" "d \<noteq> JNull"
    by (cases f rule: report_cases [of parse items]) auto
  from Cons.prems have "\<forall>f\<in>set fs. \<not> hasErrors (report parse items f)" by simp
  then have "\<exists>n. count_components parse items fs k' = Inr n" for k'
    by (rule Cons.IH)
  then show ?case
    by (simp add: d get_at)
qed


lemma set_actualFiles: "set (actualFiles items) = set (getAllJsonFiles items [])"
  by (simp add: actualFiles_def)

lemma sorts_iff: "sorts cs \<longleftrightarrow> length cs < 2 \<or> list_all printable cs"
  by (auto simp: sorts_def declaredFiles_def)

lemma sorts_declaredFiles: "sorts cs \<Longrightarrow> declaredFiles cs = Inr (declared cs)"
  by (simp add: sorts_def declared_def split: sum.splits)

lemma not_sorts_declaredFiles: "\<not> sorts cs \<Longrightarrow> declaredFiles cs = Inl TypeError"
  by (simp add: sorts_def declaredFiles_def split: if_splits)

lemma mset_declared: "sorts cs \<Longrightarrow> mset (declared cs) = mset cs"
  by (auto simp: sorts_def declared_def declaredFiles_def split: if_splits)

lemma set_declared: "sorts cs \<Longrightarrow> set (declared cs) = set cs"
  by (metis mset_declared mset_eq_setD)

lemma declared_not_sorts: "\<not> sorts cs \<Longrightarrow> declared cs = []"
  by (simp add: declared_def not_sorts_declaredFiles)

lemma set_staleInIndex:
  "set (staleInIndex actual ds) = {c \<in> set ds. \<not> includes_value actual c}"
  by (auto simp: staleInIndex_def)

lemma set_missingFromIndex:
  "set (missingFromIndex actual ds) = {f \<in> set actual. JStr f \<notin> set ds}"
  by (auto simp: missingFromIndex_def)

lemma validate_files_crashed:
  assumes "\<not> sorts cs"
  shows "validate_files parse items cs s = \<lparr>printed = out s @ [(Error, Uncaught TypeError)], status = 1\<rparr>"
  by (simp add: validate_files_def not_sorts_declaredFiles [OF assms] uncaught_def)

lemma validate_files_failed:
  assumes "sorts cs" "hasErrors s \<or> any_errors parse items cs"
  shows "validate_files parse items cs s =
     \<lparr>printed = out s @ compare_lines items cs @ file_lines parse items @ [(Error, ValidationFailed)],
      status = 1\<rparr>"
  using assms(2)
  by (auto simp: validate_files_def sorts_declaredFiles [OF assms(1)] Let_def
      foldl_validate_component say_def fail_def exit1_def compare_lines_def file_lines_def
      any_errors_def)

lemma validate_files_passed:
  assumes "sorts cs" "\<not> hasErrors s" "\<not> any_errors parse items cs"
  shows "\<exists>n. validate_files parse items cs s =
     \<lparr>printed = out s @ compare_lines items cs @ file_lines parse items
         @ [(Log, AllPassed), (Log, Ready n)],
      status = 0\<rparr>"
proof -
  from assms(3) have "\<forall>f\<in>set (actualFiles items). \<not> hasErrors (report parse items f)"
    by (simp add: any_errors_def)
  then obtain n where n: "count_components parse items (actualFiles items) 0 = Inr n"
    using count_components_ok by blast
  show ?thesis
    using assms(2,3) n
    by (auto simp: validate_files_def sorts_declaredFiles [OF assms(1)] Let_def
      foldl_validate_component say_def fail_def exit0_def compare_lines_def file_lines_def
      any_errors_def)
qed

lemma validatePackage_reaches:
  assumes "index_components parse items = Some cs"
  shows "validatePackage parse (Some (Dir items)) =
     validate_files parse items cs \<lparr>out = [(Log, Validating), (Log, IndexValid)], hasErrors = False\<rparr>"
proof -
  from assms obtain indexData where
    l: "load parse items ''index.json'' = Inr indexData" and
    v: "truthy (at indexData [''version''])" and
    c: "at indexData [''components''] = Some (JArr cs)"
    by (auto simp: index_components_def split: sum.splits if_splits option.splits json.splits)
  from c have nn: "indexData \<noteq> JNull" by auto
  from l have ex: "map_of items ''index.json'' \<noteq> None"
    by (auto simp: load_def readFileSync_def split: sum.splits option.splits node.splits)
  show ?thesis
    using l v c ex
    by (simp add: validatePackage_def Let_def index_exists_def say_def validate_index_def get_at [OF nn])
qed

lemma validatePackage_crash:
  assumes "index_components parse items = Some cs" "\<not> sorts cs"
  shows "validatePackage parse (Some (Dir items)) =
     \<lparr>printed = [(Log, Validating), (Log, IndexValid), (Error, Uncaught TypeError)], status = 1\<rparr>"
  by (simp add: validatePackage_reaches [OF assms(1)] validate_files_crashed [OF assms(2)])

lemma validatePackage_run:
  assumes "index_components parse items = Some cs" "sorts cs"
  shows "\<exists>tail. validatePackage parse (Some (Dir items)) =
           \<lparr>printed = [(Log, Validating), (Log, IndexValid)] @ compare_lines items cs
               @ file_lines parse items @ tail,
            status = (if any_errors parse items cs then 1 else 0)\<rparr>
         \<and> (if any_errors parse items cs then tail = [(Error, ValidationFailed)]
            else \<exists>n. tail = [(Log, AllPassed), (Log, Ready n)])"
proof (cases "any_errors parse items cs")
  case True
  then show ?thesis
    by (simp add: validatePackage_reaches [OF assms(1)] validate_files_failed [OF assms(2)])
next
  case False
  from validate_files_passed [OF assms(2) _ False,
      of "\<lparr>out = [(Log, Validating), (Log, IndexValid)], hasErrors = False\<rparr>"]
  show ?thesis
    using False by (auto simp: validatePackage_reaches [OF assms(1)])
qed

lemma validatePackage_status:
  assumes "index_components parse items = Some cs"
  shows "status (validatePackage parse (Some (Dir items)))
     = (if sorts cs \<and> \<not> any_errors parse items cs then 0 else 1)"
proof (cases "sorts cs")
  case True
  from validatePackage_run [OF assms True] show ?thesis using True by auto
next
  case False
  from validatePackage_crash [OF assms False] show ?thesis using False by simp
qed

lemma validatePackage_file_line:
  assumes "index_components parse items = Some cs" "sorts cs" "f \<in> set (actualFiles items)"
    "x \<in> set (out (report parse items f))"
  shows "x \<in> set (printed (validatePackage parse (Some (Dir items))))"
proof -
  from assms(3,4) have "x \<in> set (file_lines parse items)"
    by (auto simp: file_lines_def)
  then show ?thesis
    using validatePackage_run [OF assms(1,2)] by auto
qed

lemma validatePackage_compare_line:
  assumes "index_components parse items = Some cs" "sorts cs" "x \<in> set (compare_lines items cs)"
  shows "x \<in> set (printed (validatePackage parse (Some (Dir items))))"
  using validatePackage_run [OF assms(1,2)] assms(3) by auto

lemma validatePackage_printed_cases:
  assumes "index_components parse items = Some cs" "sorts cs"
    "x \<in> set (printed (validatePackage parse (Some (Dir items))))"
  shows "x = (Log, Validating) \<or> x = (Log, IndexValid) \<or> x \<in> set (compare_lines items cs)
     \<or> (\<exists>f\<in>set (actualFiles items). x \<in> set (out (report parse items f)))
     \<or> (x = (Error, ValidationFailed) \<and> any_errors parse items cs)
     \<or> x = (Log, AllPassed) \<or> (\<exists>n. x = (Log, Ready n))"
proof -
  from validatePackage_run [OF assms(1,2)] obtain tail where
    p: "printed (validatePackage parse (Some (Dir items))) =
          [(Log, Validating), (Log, IndexValid)] @ compare_lines items cs @ file_lines parse items @ tail"
    and t: "if any_errors parse items cs then tail = [(Error, ValidationFailed)]
            else \<exists>n. tail = [(Log, AllPassed), (Log, Ready n)]"
    by auto
  from assms(3) p consider "x = (Log, Validating)" | "x = (Log, IndexValid)"
    | "x \<in> set (compare_lines items cs)" | "x \<in> set (file_lines parse items)" | "x \<in> set tail"
    by auto
  then show ?thesis
  proof cases
    case 4
    then show ?thesis by (auto simp: file_lines_def)
  next
    case 5
    with t show ?thesis by (auto split: if_splits)
  qed auto
qed

lemma compare_lines_kinds:
  "x \<in> set (compare_lines items cs) \<Longrightarrow>
     x = (Log, Found (length (actualFiles items))) \<or> x = (Log, Declares (length (declared cs)))
     \<or> x = (Warn, NotListed (missingFromIndex (actualFiles items) (declared cs)))
     \<or> x = (Warn, NotListedHint)
     \<or> (x = (Error, Stale (staleInIndex (actualFiles items) (declared cs)))
        \<and> staleInIndex (actualFiles items) (declared cs) \<noteq> [])"
  by (auto simp: compare_lines_def split: if_splits)


lemma Missing_printed:
  assumes "index_components parse items = Some cs"
    "(Error, Missing f x) \<in> set (printed (validatePackage parse (Some (Dir items))))"
  shows "sorts cs \<and> f \<in> set (actualFiles items)
     \<and> (Error, Missing f x) \<in> set (out (report parse items f))"
proof (cases "sorts cs")
  case True
  from validatePackage_printed_cases [OF assms(1) True assms(2)]
    compare_lines_kinds [of "(Error, Missing f x)" items cs]
    report_tagged_Missing [of Error f x parse items] True
  show ?thesis by auto
next
  case False
  from validatePackage_crash [OF assms(1) False] assms(2) show ?thesis by simp
qed

lemma validatePackage_index_null:
  assumes "load parse items ''index.json'' = Inr JNull"
  shows "validatePackage parse (Some (Dir items)) =
     \<lparr>printed = [(Log, Validating), (Log, IndexValid), (Error, Uncaught TypeError)], status = 1\<rparr>"
proof -
  from assms have ex: "map_of items ''index.json'' \<noteq> None"
    by (auto simp: load_def readFileSync_def split: sum.splits option.splits node.splits)
  show ?thesis
    using assms ex
    by (simp add: validatePackage_def Let_def index_exists_def say_def validate_index_def uncaught_def)
qed

lemma validatePackage_index_rejected:
  assumes "load parse items ''index.json'' = Inr indexData" "indexData \<noteq> JNull"
    and "\<not> truthy (at indexData [''version'']) \<or> \<not> isArray (at indexData [''components''])"
  shows "validatePackage parse (Some (Dir items)) =
     \<lparr>printed = [(Log, Validating), (Log, IndexValid)]
        @ (if \<not> truthy (at indexData [''version'']) then [(Error, IndexMissingVersion)] else [])
        @ (if \<not> isArray (at indexData [''components'']) then [(Error, IndexMissingComponents)] else []),
      status = 1\<rparr>"
proof -
  from assms(1) have ex: "map_of items ''index.json'' \<noteq> None"
    by (auto simp: load_def readFileSync_def split: sum.splits option.splits node.splits)
  show ?thesis
    using assms ex
    by (auto simp: validatePackage_def Let_def index_exists_def say_def fail_def validate_index_def
        exit1_def get_at)
qed

lemma index_components_eq:
  assumes "load parse items ''index.json'' = Inr indexData"
    "truthy (at indexData [''version''])" "at indexData [''components''] = Some (JArr cs)"
  shows "index_components parse items = Some cs"
  using assms by (simp add: index_components_def)

lemma validatePackage_status_index:
  assumes "load parse items ''index.json'' = Inr indexData"
    "at indexData [''components''] = Some (JArr cs)"
  shows "status (validatePackage parse (Some (Dir items)))
     = (if truthy (at indexData [''version'']) \<and> sorts cs \<and> \<not> any_errors parse items cs
        then 0 else 1)"
proof (cases "truthy (at indexData [''version''])")
  case True
  then show ?thesis
    using validatePackage_status [OF index_components_eq [OF assms(1) True assms(2)]] by simp
next
  case False
  from assms(2) have "indexData \<noteq> JNull" by auto
  from validatePackage_index_rejected [OF assms(1) this] False show ?thesis by simp
qed

lemma at_Some_object: "at x (k # ks) = Some v \<Longrightarrow> \<exists>kvs. x = JObj kvs"
  by (cases x) simp_all

lemma at_Some_truthy_parent:
  "at d [k, l] = Some v \<Longrightarrow> truthy (at d [k])"
  by (cases d) (auto split: option.splits dest: at_Some_object)

lemma at_Some_not_null: "at d (k # ks) = Some v \<Longrightarrow> d \<noteq> JNull"
  by auto

lemma required_fields_parent:
  assumes "field \<in> set required_fields" "at d field = Some v" "\<not> truthy (Some v)"
  shows "dotted (if truthy (at d (take 1 field)) then field else take 1 field) = dotted field"
proof -
  from assms(1) consider "length field = 1" | k l where "field = [k, l]"
    by (auto simp: required_fields_def)
  then show ?thesis
  proof cases
    case 1
    then show ?thesis by simp
  next
    case 2
    with assms(2) have "truthy (at d [k])" by (simp add: at_Some_truthy_parent)
    with 2 show ?thesis by simp
  qed
qed

lemma missing_fields_falsy:
  assumes "field \<in> set required_fields" "\<not> truthy (at d field)"
  shows "dotted (if truthy (at d (take 1 field)) then field else take 1 field) \<in> set (missing_fields d)"
  using assms
  by (auto simp: required_fields_def missing_fields_def)

lemma split_path_plain: "CHR ''/'' \<notin> set s \<Longrightarrow> split_path s = [s]"
  by (induction s) auto

lemma split_path_segment:
  "CHR ''/'' \<notin> set s \<Longrightarrow> split_path (s @ CHR ''/'' # r) = s # split_path r"
  by (induction s) auto

lemma split_join_path:
  "segs \<noteq> [] \<Longrightarrow> \<forall>s\<in>set segs. CHR ''/'' \<notin> set s \<Longrightarrow> split_path (join_path segs) = segs"
proof (induction segs rule: join_path.induct)
  case 1
  then show ?case by simp
next
  case (2 s)
  then show ?case by (simp add: split_path_plain)
next
  case (3 s t ss)
  then show ?case by (simp add: split_path_segment)
qed

lemma slashes_id: "CHR 0x5C \<notin> set p \<Longrightarrow> slashes p = p"
  by (induction p) (auto simp: slashes_def)

lemma lookup_path_skip:
  assumes "item \<notin> set (map fst items)" "lookup_path items segs = Some n"
  shows "lookup_path ((item, m) # items) segs = Some n"
proof (cases segs)
  case Nil
  with assms show ?thesis by simp
next
  case (Cons seg rest)
  with assms(2) have "map_of items seg \<noteq> None"
    by (cases rest) (auto split: option.splits)
  then have "seg \<in> set (map fst items)"
    by (metis map_of_eq_None_iff set_map)
  with assms(1) have "seg \<noteq> item" by auto
  with assms(2) Cons show ?thesis
    by (cases rest) auto
qed

lemma startsWith_iff: "startsWith s p \<longleftrightarrow> (\<exists>r. s = p @ r)"
  by (induction s p rule: startsWith.induct) auto

lemma endsWith_iff: "endsWith s suffix \<longleftrightarrow> (\<exists>p. s = p @ suffix)"
proof -
  have "endsWith s suffix \<longleftrightarrow> (\<exists>r. rev s = rev suffix @ r)"
    by (simp add: endsWith_def startsWith_iff)
  also have "\<dots> \<longleftrightarrow> (\<exists>p. s = p @ suffix)"
  proof
    assume "\<exists>r. rev s = rev suffix @ r"
    then obtain r where "rev s = rev suffix @ r" ..
    then have "rev (rev s) = rev (rev suffix @ r)" by simp
    then have "s = rev r @ suffix" by simp
    then show "\<exists>p. s = p @ suffix" ..
  next
    assume "\<exists>p. s = p @ suffix"
    then obtain p where "s = p @ suffix" ..
    then have "rev s = rev suffix @ rev p" by simp
    then show "\<exists>r. rev s = rev suffix @ r" ..
  qed
  finally show ?thesis .
qed

lemma lookup_path_other:
  "seg \<noteq> item \<Longrightarrow> lookup_path ((item, m) # items) (seg # rest) = lookup_path items (seg # rest)"
  by (cases rest) auto

lemma lookup_path_into:
  "rest \<noteq> [] \<Longrightarrow> lookup_path ((item, Dir sub) # items) (item # rest) = lookup_path sub rest"
  by (cases rest) auto

lemma lookup_path_file:
  "lookup_path ((item, File body) # items) (item # rest) = (if rest = [] then Some (File body) else None)"
  by (cases rest) auto

lemma lookup_path_dir:
  "lookup_path ((item, Dir sub) # items) [item] = Some (Dir sub)"
  by simp

lemma join_path_Cons: "rest \<noteq> [] \<Longrightarrow> join_path (s # rest) = s @ ''/'' @ join_path rest"
  by (cases rest) auto

lemma discovered_is_file:
  "wf_tree items \<Longrightarrow> CHR 0x5C \<notin> set base \<Longrightarrow> f \<in> set (getAllJsonFiles items base) \<Longrightarrow>
     \<exists>segs body. (\<forall>s\<in>set segs. CHR ''/'' \<notin> set s)
        \<and> f = (if base \<noteq> [] then base @ ''/'' @ join_path segs else join_path segs)
        \<and> component_file items segs body"
proof (induction items base arbitrary: f rule: getAllJsonFiles.induct)
  case (1 basePath)
  then show ?case by simp
next
  case (2 item sub items basePath)
  let ?rel = "if basePath \<noteq> [] then path_join basePath item else item"
  from "2.prems"(1) have wf: "wf_name item" "item \<notin> set (map fst items)" "wf_tree sub" "wf_tree items"
    by simp_all
  from "2.prems"(3) consider
    (inside) "f \<in> set (getAllJsonFiles sub ?rel)" | (later) "f \<in> set (getAllJsonFiles items basePath)"
    by auto
  then show ?case
  proof cases
    case inside
    have rel: "CHR 0x5C \<notin> set ?rel" "?rel \<noteq> []"
      using wf(1) "2.prems"(2) by (auto simp: wf_name_def path_join_def)
    from "2.IH"(1) [OF wf(3) rel(1) inside] rel(2)
    obtain segs body where s: "\<forall>s\<in>set segs. CHR ''/'' \<notin> set s"
      "f = ?rel @ ''/'' @ join_path segs" "component_file sub segs body"
      by auto
    from s(3) have ne: "segs \<noteq> []" and l: "lookup_path sub segs = Some (File body)"
      and e: "endsWith (last segs) ''.json''" "last segs \<noteq> ''index.json''"
      by (simp_all add: component_file_def)
    have "\<forall>s\<in>set (item # segs). CHR ''/'' \<notin> set s"
      using s(1) wf(1) by (simp add: wf_name_def)
    moreover have "f = (if basePath \<noteq> [] then basePath @ ''/'' @ join_path (item # segs)
                        else join_path (item # segs))"
      using s(2) ne by (simp add: path_join_def join_path_Cons)
    moreover have "component_file ((item, Dir sub) # items) (item # segs) body"
      using l e ne by (simp add: component_file_def lookup_path_into)
    ultimately show ?thesis by blast
  next
    case later
    from "2.IH"(2) [OF wf(4) "2.prems"(2) later]
    obtain segs body where s: "\<forall>s\<in>set segs. CHR ''/'' \<notin> set s"
      "f = (if basePath \<noteq> [] then basePath @ ''/'' @ join_path segs else join_path segs)"
      "component_file items segs body"
      by blast
    from s(3) lookup_path_skip [OF wf(2)]
    have "component_file ((item, Dir sub) # items) segs body"
      by (simp add: component_file_def)
    with s show ?thesis by blast
  qed
next
  case (3 item body items basePath)
  let ?rel = "if basePath \<noteq> [] then path_join basePath item else item"
  from "3.prems"(1) have wf: "wf_name item" "item \<notin> set (map fst items)" "wf_tree items"
    by simp_all
  from "3.prems"(3) consider
    (here) "f = slashes ?rel" "endsWith item ''.json''" "item \<noteq> ''index.json''"
    | (later) "f \<in> set (getAllJsonFiles items basePath)"
    by (auto split: if_splits)
  then show ?case
  proof cases
    case here
    have "CHR 0x5C \<notin> set ?rel"
      using wf(1) "3.prems"(2) by (auto simp: wf_name_def path_join_def)
    then have "f = ?rel" using here(1) by (simp add: slashes_id)
    then have "f = (if basePath \<noteq> [] then basePath @ ''/'' @ join_path [item] else join_path [item])"
      by (simp add: path_join_def)
    moreover have "component_file ((item, File body) # items) [item] body"
      using here(2,3) by (simp add: component_file_def)
    moreover have "\<forall>s\<in>set [item]. CHR ''/'' \<notin> set s"
      using wf(1) by (simp add: wf_name_def)
    ultimately show ?thesis by blast
  next
    case later
    from "3.IH" [OF wf(3) "3.prems"(2) later]
    obtain segs body' where s: "\<forall>s\<in>set segs. CHR ''/'' \<notin> set s"
      "f = (if basePath \<noteq> [] then basePath @ ''/'' @ join_path segs else join_path segs)"
      "component_file items segs body'"
      by blast
    from s(3) lookup_path_skip [OF wf(2)]
    have "component_file ((item, File body) # items) segs body'"
      by (simp add: component_file_def)
    with s show ?thesis by blast
  qed
qed

lemma file_is_discovered:
  "wf_tree items \<Longrightarrow> CHR 0x5C \<notin> set base \<Longrightarrow> component_file items segs body \<Longrightarrow>
     (if base \<noteq> [] then base @ ''/'' @ join_path segs else join_path segs)
       \<in> set (getAllJsonFiles items base)"
proof (induction items base arbitrary: segs rule: getAllJsonFiles.induct)
  case (1 basePath)
  then show ?case by (cases segs rule: join_path.cases) (simp_all add: component_file_def)
next
  case (2 item sub items basePath)
  let ?rel = "if basePath \<noteq> [] then path_join basePath item else item"
  from "2.prems"(1) have wf: "wf_name item" "item \<notin> set (map fst items)" "wf_tree sub" "wf_tree items"
    by simp_all
  from "2.prems"(3) obtain seg rest where segs: "segs = seg # rest"
    by (cases segs) (auto simp: component_file_def)
  show ?case
  proof (cases "seg = item")
    case True
    from "2.prems"(3) segs True have rest: "rest \<noteq> []"
      by (auto simp: component_file_def)
    with "2.prems"(3) segs True have c: "component_file sub rest body"
      by (simp add: component_file_def lookup_path_into)
    have rel: "CHR 0x5C \<notin> set ?rel" "?rel \<noteq> []"
      using wf(1) "2.prems"(2) by (auto simp: wf_name_def path_join_def)
    from "2.IH"(1) [OF wf(3) rel(1) c] rel(2)
    have "?rel @ ''/'' @ join_path rest \<in> set (getAllJsonFiles sub ?rel)" by simp
    then show ?thesis
      using segs True rest by (auto simp: path_join_def join_path_Cons split: if_splits)
  next
    case False
    with "2.prems"(3) segs have "component_file items segs body"
      by (simp add: component_file_def lookup_path_other)
    from "2.IH"(2) [OF wf(4) "2.prems"(2) this] show ?thesis by simp
  qed
next
  case (3 item content items basePath)
  let ?rel = "if basePath \<noteq> [] then path_join basePath item else item"
  from "3.prems"(1) have wf: "wf_name item" "item \<notin> set (map fst items)" "wf_tree items"
    by simp_all
  from "3.prems"(3) obtain seg rest where segs: "segs = seg # rest"
    by (cases segs) (auto simp: component_file_def)
  show ?case
  proof (cases "seg = item")
    case True
    from "3.prems"(3) segs True have rest: "rest = []"
      by (auto simp: component_file_def lookup_path_file split: if_splits)
    with "3.prems"(3) segs True have e: "endsWith item ''.json''" "item \<noteq> ''index.json''"
      by (simp_all add: component_file_def)
    have "CHR 0x5C \<notin> set ?rel"
      using wf(1) "3.prems"(2) by (auto simp: wf_name_def path_join_def)
    then have "slashes ?rel = ?rel" by (rule slashes_id)
    then show ?thesis
      using segs True rest e by (simp add: path_join_def)
  next
    case False
    with "3.prems"(3) segs have "component_file items segs body"
      by (simp add: component_file_def lookup_path_other)
    from "3.IH" [OF wf(3) "3.prems"(2) this] show ?thesis by simp
  qed
qed

lemma wf_tree_map_of:
  "wf_tree items \<Longrightarrow> map_of items seg = Some n \<Longrightarrow>
     wf_name seg \<and> (case n of Dir sub \<Rightarrow> wf_tree sub | File body \<Rightarrow> True)"
proof (induction items rule: wf_tree.induct)
  case 1
  then show ?case by simp
next
  case (2 item sub items)
  then show ?case by (auto split: if_splits)
next
  case (3 item content items)
  then show ?case by (auto split: if_splits)
qed

lemma lookup_path_names:
  "wf_tree items \<Longrightarrow> lookup_path items segs = Some n \<Longrightarrow> \<forall>s\<in>set segs. CHR ''/'' \<notin> set s"
proof (induction items segs rule: lookup_path.induct)
  case (1 items)
  then show ?case by simp
next
  case (2 items seg)
  then show ?case using wf_tree_map_of [of items seg n] by (simp add: wf_name_def)
next
  case (3 items seg v va)
  from "3.prems"(2) obtain sub where m: "map_of items seg = Some (Dir sub)"
    and l: "lookup_path sub (v # va) = Some n"
    by (auto split: option.splits node.splits)
  from wf_tree_map_of [OF "3.prems"(1) m] have w: "wf_name seg" "wf_tree sub" by simp_all
  from "3.IH" [OF m refl w(2) l] w(1) show ?case by (simp add: wf_name_def)
qed

lemma component_file_discovered:
  assumes "wf_tree items" "component_file items segs body"
  shows "join_path segs \<in> set (actualFiles items)
     \<and> readFileSync items (join_path segs) = Inr body"
proof -
  from file_is_discovered [OF assms(1) _ assms(2), of "[]"]
  have d: "join_path segs \<in> set (actualFiles items)" by (simp add: set_actualFiles)
  from assms(2) have ne: "segs \<noteq> []" and l: "lookup_path items segs = Some (File body)"
    by (simp_all add: component_file_def)
  from lookup_path_names [OF assms(1) l] have "split_path (join_path segs) = segs"
    using ne by (simp add: split_join_path)
  with l d show ?thesis by (simp add: readFileSync_def)
qed

lemma discovered_component_file:
  assumes "wf_tree items" "f \<in> set (actualFiles items)"
  shows "\<exists>segs body. f = join_path segs \<and> component_file items segs body
     \<and> readFileSync items f = Inr body"
proof -
  from assms(2) have "f \<in> set (getAllJsonFiles items [])" by (simp add: set_actualFiles)
  from discovered_is_file [OF assms(1) _ this]
  obtain segs body where s: "f = join_path segs" "component_file items segs body"
    by auto
  from component_file_discovered [OF assms(1) s(2)] s show ?thesis by auto
qed


lemma split_path_nonempty: "split_path p \<noteq> []"
  by (induction p) (auto split: list.splits)

lemma join_split_path: "join_path (split_path p) = p"
proof (induction p)
  case Nil
  then show ?case by simp
next
  case (Cons c p)
  show ?case
  proof (cases "c = CHR ''/''")
    case True
    then show ?thesis using Cons split_path_nonempty [of p] by (simp add: join_path_Cons)
  next
    case False
    obtain seg rest where s: "split_path p = seg # rest"
      using split_path_nonempty [of p] by (cases "split_path p") auto
    with Cons have "join_path (seg # rest) = p" by simp
    then have "join_path ((c # seg) # rest) = c # p" by (cases rest) auto
    with False s show ?thesis by simp
  qed
qed

lemma names_component_file_discovered:
  assumes "wf_tree items" "names_component_file items c"
  shows "includes_value (actualFiles items) c"
proof -
  from assms(2) obtain p where c: "c = JStr p" by (cases c) auto
  from assms(2) c obtain body where "component_file items (split_path p) body"
    by (auto simp: component_file_def split_path_nonempty split: option.splits node.splits)
  from component_file_discovered [OF assms(1) this] have "p \<in> set (actualFiles items)"
    by (simp add: join_split_path)
  with c show ?thesis by simp
qed

lemma valid_document_missing: "valid_document d \<Longrightarrow> \<not> truthy (at d [''topics'']) \<Longrightarrow>
    \<not> truthy (at d [''definitions'']) \<Longrightarrow> missing_fields d = []"
  by (simp add: valid_document_def required_fields_def missing_fields_def)

lemma valid_text_report:
  assumes "readFileSync items f = Inr body" "valid_text parse body"
  shows "\<not> hasErrors (report parse items f) \<and> Error \<notin> fst ` set (out (report parse items f))"
proof -
  from assms(2) obtain d where d: "parse body = Some d" "valid_document d"
    by (auto simp: valid_text_def split: option.splits)
  from d(1) assms(1) have l: "load parse items f = Inr d" by (simp add: load_def)
  from d(2) have n: "d \<noteq> JNull" by (simp add: valid_document_def)
  show ?thesis
    using report_document [OF l n] valid_document_missing [OF d(2)] by auto
qed

lemma report_tagged_InvalidFile:
  "(l, InvalidFile f e) \<in> set (out (report parse items g)) \<Longrightarrow> g = f"
  by (cases g rule: report_cases [of parse items]) auto

lemma InvalidFile_printed:
  assumes "index_components parse items = Some cs"
    "(Error, InvalidFile f e) \<in> set (printed (validatePackage parse (Some (Dir items))))"
  shows "sorts cs \<and> f \<in> set (actualFiles items)
     \<and> (Error, InvalidFile f e) \<in> set (out (report parse items f))"
proof (cases "sorts cs")
  case True
  from validatePackage_printed_cases [OF assms(1) True assms(2)]
    compare_lines_kinds [of "(Error, InvalidFile f e)" items cs]
    report_tagged_InvalidFile [of Error f e parse items] True
  show ?thesis by auto
next
  case False
  from validatePackage_crash [OF assms(1) False] assms(2) show ?thesis by simp
qed

lemma file_error_status:
  assumes "index_components parse items = Some cs" "f \<in> set (actualFiles items)"
    "hasErrors (report parse items f)"
  shows "status (validatePackage parse (Some (Dir items))) = 1"
proof -
  from assms(2,3) have "any_errors parse items cs" unfolding any_errors_def by blast
  then show ?thesis by (simp add: validatePackage_status [OF assms(1)])
qed

lemma falsy_field_reported:
  assumes "index_components parse items = Some cs"
    and "componentFile \<in> set (actualFiles items)"
    and "load parse items componentFile = Inr componentData"
    and "componentData \<noteq> JNull"
    and "\<not> truthy (at componentData [''topics''])"
    and "\<not> truthy (at componentData [''definitions''])"
    and "field \<in> set required_fields"
    and "\<not> truthy (at componentData field)"
  shows "status (validatePackage parse (Some (Dir items))) = 1
     \<and> (sorts cs \<longrightarrow> (Error, Missing componentFile
           (dotted (if truthy (at componentData (take 1 field)) then field else take 1 field)))
         \<in> set (printed (validatePackage parse (Some (Dir items)))))"
proof -
  let ?name = "dotted (if truthy (at componentData (take 1 field)) then field else take 1 field)"
  have m: "?name \<in> set (missing_fields componentData)"
    using assms(7,8) by (rule missing_fields_falsy)
  have r: "report parse items componentFile =
      \<lparr>out = map (\<lambda>x. (Error, Missing componentFile x)) (missing_fields componentData),
       hasErrors = (missing_fields componentData \<noteq> [])\<rparr>"
    using report_document [OF assms(3,4)] assms(5,6) by simp
  from m r have "hasErrors (report parse items componentFile)" by auto
  then have "status (validatePackage parse (Some (Dir items))) = 1"
    by (rule file_error_status [OF assms(1,2)])
  moreover have l: "(Error, Missing componentFile ?name) \<in> set (out (report parse items componentFile))"
    using m r by auto
  have "(Error, Missing componentFile ?name) \<in> set (printed (validatePackage parse (Some (Dir items))))"
    if "sorts cs"
    using validatePackage_file_line [OF assms(1) that assms(2) l] .
  ultimately show ?thesis by simp
qed


lemma strings_sort: "\<forall>c\<in>set cs. \<exists>p. c = JStr p \<Longrightarrow> sorts cs"
  by (auto simp: sorts_iff list_all_iff printable_def)

lemma names_component_file_string: "names_component_file items c \<Longrightarrow> \<exists>p. c = JStr p"
  by (cases c) auto

lemma sorts_permuted:
  assumes "mset cs' = mset cs"
  shows "sorts cs' = sorts cs"
proof -
  from assms have "set cs' = set cs" by (rule mset_eq_setD)
  moreover from assms have "length cs' = length cs" by (rule mset_eq_length)
  ultimately show ?thesis by (simp add: sorts_iff list_all_iff)
qed

lemma try_component_same_load:
  assumes "load parse items' f = load parse items f"
  shows "try_component parse items' f s = try_component parse items f s"
  apply (simp only: try_component_def)
  apply (subst assms)
  apply (rule refl)
  done

lemma report_same_load:
  assumes "load parse items' f = load parse items f"
  shows "report parse items' f = report parse items f"
  by (simp only: report_def validate_component_def try_component_same_load [OF assms])

lemma any_errors_permuted:
  assumes "mset cs' = mset cs" "getAllJsonFiles items' [] = getAllJsonFiles items []"
    "\<forall>f\<in>set (getAllJsonFiles items []). load parse items' f = load parse items f"
  shows "(sorts cs' \<and> \<not> any_errors parse items' cs') = (sorts cs \<and> \<not> any_errors parse items cs)"
proof (cases "sorts cs")
  case False
  then show ?thesis using sorts_permuted [OF assms(1)] by simp
next
  case True
  then have True': "sorts cs'" using sorts_permuted [OF assms(1)] by simp
  from assms(1) have "set cs' = set cs" by (rule mset_eq_setD)
  then have s: "set (declared cs') = set (declared cs)"
    by (simp add: set_declared True True')
  from assms(2) have a: "actualFiles items' = actualFiles items" by (simp only: actualFiles_def)
  have "set (staleInIndex (actualFiles items') (declared cs'))
      = set (staleInIndex (actualFiles items) (declared cs))"
    unfolding set_staleInIndex s a ..
  then have st: "staleInIndex (actualFiles items') (declared cs') \<noteq> []
      \<longleftrightarrow> staleInIndex (actualFiles items) (declared cs) \<noteq> []"
    by (metis set_empty)
  have r: "hasErrors (report parse items' f) = hasErrors (report parse items f)"
    if "f \<in> set (actualFiles items)" for f
  proof -
    from that assms(3) have "load parse items' f = load parse items f"
      by (simp only: set_actualFiles)
    then show ?thesis using report_same_load by metis
  qed
  have "(\<exists>f\<in>set (actualFiles items'). hasErrors (report parse items' f))
      \<longleftrightarrow> (\<exists>f\<in>set (actualFiles items). hasErrors (report parse items f))"
    unfolding a using r by blast
  with st True True' show ?thesis
    unfolding any_errors_def by blast
qed

section \<open>The validator: required fields\<close>




section \<open>The validator: malformed files\<close>




section \<open>The validator: topic definitions\<close>




section \<open>The validator: files the index does not list\<close>

text \<open>
  C3, as amended. The directory tree is one a file system can hold without a backslash in
  a name (\<open>wf_tree\<close>), the index has passed its checks and its entries can be sorted (as
  they can when they are strings). A component file on disk, at any depth, whose relative
  path is not an entry of the index is named in a warning line, on the warning channel.
  If its text is valid, no error line names it and it is not among the stale entries. If
  moreover the catalog is valid otherwise (every entry of the index is the relative path
  of a component file on disk, and the text of every component file on disk is valid),
  the process ends with status 0 and nothing at all is printed on the error channel.
\<close>

theorem undeclared_file_only_warned:
  assumes "wf_tree items"
    and "index_components parse items = Some cs"
    and "sorts cs"
    and "component_file items segs body"
    and "JStr (join_path segs) \<notin> set cs"
  shows "(Warn, NotListed (missingFromIndex (actualFiles items) (declared cs)))
           \<in> set (printed (validatePackage parse (Some (Dir items))))
     \<and> join_path segs \<in> set (missingFromIndex (actualFiles items) (declared cs))
     \<and> (valid_text parse body \<longrightarrow>
          (\<forall>x. (Error, Missing (join_path segs) x)
             \<notin> set (printed (validatePackage parse (Some (Dir items)))))
          \<and> (\<forall>e. (Error, InvalidFile (join_path segs) e)
             \<notin> set (printed (validatePackage parse (Some (Dir items)))))
          \<and> JStr (join_path segs) \<notin> set (staleInIndex (actualFiles items) (declared cs)))
     \<and> ((\<forall>c\<in>set cs. names_component_file items c)
          \<and> (\<forall>segs' body'. component_file items segs' body' \<longrightarrow> valid_text parse body')
        \<longrightarrow> status (validatePackage parse (Some (Dir items))) = 0
          \<and> Error \<notin> fst ` set (printed (validatePackage parse (Some (Dir items)))))"
proof -
  let ?printed = "set (printed (validatePackage parse (Some (Dir items))))"
  let ?file = "join_path segs"
  let ?missing = "missingFromIndex (actualFiles items) (declared cs)"
  let ?stale = "staleInIndex (actualFiles items) (declared cs)"
  from component_file_discovered [OF assms(1,4)]
  have d: "?file \<in> set (actualFiles items)" and rd: "readFileSync items ?file = Inr body"
    by simp_all
  have m: "?file \<in> set ?missing"
    using d assms(5) by (simp add: set_missingFromIndex set_declared [OF assms(3)])
  then have "?missing \<noteq> []" by auto
  then have "(Warn, NotListed ?missing) \<in> set (compare_lines items cs)"
    by (simp add: compare_lines_def)
  then have w: "(Warn, NotListed ?missing) \<in> ?printed"
    by (rule validatePackage_compare_line [OF assms(2,3)])
  have ns: "JStr ?file \<notin> set ?stale"
    using assms(5) by (simp add: set_staleInIndex set_declared [OF assms(3)])
  have quiet: "(\<forall>x. (Error, Missing ?file x) \<notin> ?printed)
      \<and> (\<forall>e. (Error, InvalidFile ?file e) \<notin> ?printed)"
    if "valid_text parse body"
  proof -
    from valid_text_report [OF rd that]
    have n: "Error \<notin> fst ` set (out (report parse items ?file))" by simp
    have "(Error, Missing ?file x) \<notin> ?printed" for x
    proof
      assume "(Error, Missing ?file x) \<in> ?printed"
      then have "(Error, Missing ?file x) \<in> set (out (report parse items ?file))"
        using Missing_printed [OF assms(2)] by blast
      with n show False by force
    qed
    moreover have "(Error, InvalidFile ?file e) \<notin> ?printed" for e
    proof
      assume "(Error, InvalidFile ?file e) \<in> ?printed"
      then have "(Error, InvalidFile ?file e) \<in> set (out (report parse items ?file))"
        using InvalidFile_printed [OF assms(2)] by blast
      with n show False by force
    qed
    ultimately show ?thesis by blast
  qed
  have ok: "status (validatePackage parse (Some (Dir items))) = 0 \<and> Error \<notin> fst ` ?printed"
    if st: "\<forall>c\<in>set cs. names_component_file items c"
      and fs: "\<forall>segs' body'. component_file items segs' body' \<longrightarrow> valid_text parse body'"
  proof -
    from st have "set ?stale = {}"
      using names_component_file_discovered [OF assms(1)]
      by (auto simp: set_staleInIndex set_declared [OF assms(3)])
    then have stale: "?stale = []" by simp
    have good: "\<not> hasErrors (report parse items f)" if "f \<in> set (actualFiles items)" for f
    proof -
      from discovered_component_file [OF assms(1) that] obtain segs' body' where
        "component_file items segs' body'" "readFileSync items f = Inr body'"
        by blast
      with fs valid_text_report [of items f body' parse] show ?thesis by blast
    qed
    with stale have ne: "\<not> any_errors parse items cs" by (simp add: any_errors_def)
    then have "status (validatePackage parse (Some (Dir items))) = 0"
      using assms(3) by (simp add: validatePackage_status [OF assms(2)])
    moreover have "fst x \<noteq> Error" if "x \<in> ?printed" for x
      using validatePackage_printed_cases [OF assms(2,3) that] compare_lines_kinds [of x items cs]
        stale ne good report_hasErrors [of parse items]
      by auto
    then have "Error \<notin> fst ` ?printed" by force
    ultimately show ?thesis by blast
  qed
  from w m ns quiet ok show ?thesis by blast
qed

theorem undeclared_file_only_warned_witness:
  \<open>wf_tree catalog_extra
   \<and> index_components example_parse catalog_extra = Some [JStr ''button.json'']
   \<and> sorts [JStr ''button.json'']
   \<and> component_file catalog_extra [''drafts'', ''card.json'']
        ''{"metadata":{"type":"card","name":"Card"},"ui":{"template":{}},"integration":{}}''
   \<and> join_path [''drafts'', ''card.json''] = ''drafts/card.json''
   \<and> JStr ''drafts/card.json'' \<notin> set [JStr ''button.json'']
   \<and> names_component_file catalog_extra (JStr ''button.json'')
   \<and> actualFiles catalog_extra = [''button.json'', ''drafts/card.json'']
   \<and> valid_text example_parse
        ''{"metadata":{"type":"button","name":"Button"},"ui":{"template":{}},"integration":{}}''
   \<and> valid_text example_parse
        ''{"metadata":{"type":"card","name":"Card"},"ui":{"template":{}},"integration":{}}''
   \<and> (Warn, NotListed [''drafts/card.json''])
        \<in> set (printed (validatePackage example_parse (Some (Dir catalog_extra))))
   \<and> status (validatePackage example_parse (Some (Dir catalog_extra))) = 0
   \<and> Error \<notin> fst ` set (printed (validatePackage example_parse (Some (Dir catalog_extra))))
   \<and> (Error, InvalidFile ''drafts/card.json'' SyntaxError)
        \<notin> set (printed (validatePackage example_parse (Some (Dir catalog_extra))))\<close>
proof -
  let ?button = \<open>''{"metadata":{"type":"button","name":"Button"},"ui":{"template":{}},"integration":{}}''\<close>
  let ?card = \<open>''{"metadata":{"type":"card","name":"Card"},"ui":{"template":{}},"integration":{}}''\<close>
  have w: "wf_tree catalog_extra"
    by code_simp
  have h1: "index_components example_parse catalog_extra = Some [JStr ''button.json'']"
    by code_simp
  have s: "sorts [JStr ''button.json'']"
    by code_simp
  have c: "component_file catalog_extra [''drafts'', ''card.json''] ?card"
    by code_simp
  have j: "join_path [''drafts'', ''card.json''] = ''drafts/card.json''"
    by simp
  have h3: "JStr (join_path [''drafts'', ''card.json'']) \<notin> set [JStr ''button.json'']"
    by simp
  have n: "names_component_file catalog_extra (JStr ''button.json'')"
    by code_simp
  have a: "actualFiles catalog_extra = [''button.json'', ''drafts/card.json'']"
    by code_simp
  have r1: "readFileSync catalog_extra ''button.json'' = Inr ?button"
    by code_simp
  have r2: "readFileSync catalog_extra ''drafts/card.json'' = Inr ?card"
    by code_simp
  have v1: "valid_text example_parse ?button"
    by code_simp
  have v2: "valid_text example_parse ?card"
    by code_simp
  have m: "missingFromIndex (actualFiles catalog_extra) (declared [JStr ''button.json''])
      = [''drafts/card.json'']"
    by code_simp
  have entries: "\<forall>c\<in>set [JStr ''button.json'']. names_component_file catalog_extra c"
    using n by simp
  have files: "\<forall>segs' body'. component_file catalog_extra segs' body' \<longrightarrow> valid_text example_parse body'"
  proof (intro allI impI)
    fix segs' body'
    assume "component_file catalog_extra segs' body'"
    from component_file_discovered [OF w this]
    have "join_path segs' \<in> set (actualFiles catalog_extra)"
      and rd: "readFileSync catalog_extra (join_path segs') = Inr body'"
      by simp_all
    then consider "join_path segs' = ''button.json''" | "join_path segs' = ''drafts/card.json''"
      by (auto simp: a)
    then show "valid_text example_parse body'"
    proof cases
      case 1
      with rd r1 v1 show ?thesis by simp
    next
      case 2
      with rd r2 v2 show ?thesis by simp
    qed
  qed
  from undeclared_file_only_warned [OF w h1 s c h3] v2 entries files m j
  have "(Warn, NotListed [''drafts/card.json''])
        \<in> set (printed (validatePackage example_parse (Some (Dir catalog_extra))))
   \<and> status (validatePackage example_parse (Some (Dir catalog_extra))) = 0
   \<and> Error \<notin> fst ` set (printed (validatePackage example_parse (Some (Dir catalog_extra))))
   \<and> (Error, InvalidFile ''drafts/card.json'' SyntaxError)
        \<notin> set (printed (validatePackage example_parse (Some (Dir catalog_extra))))"
    by simp
  with w h1 s c j n a v1 v2 show ?thesis by simp
qed

text \<open>
  C3 as stated fails: a valid component file on disk that the index does not list gets no
  warning when the index does not pass its own checks. Here the \<^verbatim>\<open>version\<close> of the
  index is the empty string: the run prints the error of the index and ends with status
  1 before it walks the directory.
\<close>

theorem undeclared_file_not_warned_under_rejected_index:
  \<open>load example_parse catalog_extra_bad_index ''index.json''
      = Inr (index_doc (JStr []) [''button.json''])
   \<and> component_file catalog_extra_bad_index [''drafts'', ''card.json'']
        ''{"metadata":{"type":"card","name":"Card"},"ui":{"template":{}},"integration":{}}''
   \<and> valid_text example_parse
        ''{"metadata":{"type":"card","name":"Card"},"ui":{"template":{}},"integration":{}}''
   \<and> JStr (join_path [''drafts'', ''card.json'']) \<notin> set [JStr ''button.json'']
   \<and> validatePackage example_parse (Some (Dir catalog_extra_bad_index)) =
       \<lparr>printed = [(Log, Validating), (Log, IndexValid), (Error, IndexMissingVersion)],
        status = 1\<rparr>\<close>
  by code_simp

text \<open>
  Why the names must hold no backslash: where a backslash is an ordinary character of a
  name, a file whose name is \<^verbatim>\<open>a\<close>, a backslash and \<^verbatim>\<open>b.json\<close> is discovered under
  the path \<^verbatim>\<open>a/b.json\<close>, which leads nowhere. The file is valid and not listed; it gets the warning, then the error of
  a file that cannot be opened, and the process ends with status 1.
\<close>

lemma backslash_name_cannot_be_opened:
  \<open>index_components example_parse catalog_backslash = Some [JStr ''button.json'']
   \<and> \<not> wf_tree catalog_backslash
   \<and> validatePackage example_parse (Some (Dir catalog_backslash)) =
       \<lparr>printed = [(Log, Validating), (Log, IndexValid), (Log, Found 2), (Log, Declares 1),
          (Warn, NotListed [''a/b.json'']), (Warn, NotListedHint),
          (Error, InvalidFile ''a/b.json'' ENOENT), (Error, ValidationFailed)],
        status = 1\<rparr>\<close>
  by code_simp

section \<open>The validator: falsy values\<close>

text \<open>
  C10, as amended. The checks test truthiness, not the presence of a key. Let \<open>v\<close> be the
  empty string, 0, \<^verbatim>\<open>false\<close> or \<^verbatim>\<open>null\<close>. In a directory tree that a file system can
  hold without a backslash in a name, under an index that has passed its checks, a
  component file on disk, at any depth, that parses, that the loop does not skip as a
  topic definition and in which one of the six required fields is there with the value
  \<open>v\<close> makes the process end with status 1; when the entries of the index can be sorted,
  so that the run reaches the loop over the files, an error line reports the field as
  missing. An index whose \<^verbatim>\<open>version\<close> is there with the value \<open>v\<close> gets the line that
  reports the version as missing, and the process ends with status 1.
\<close>

theorem falsy_field_counts_as_missing:
  assumes "v \<in> set [JStr [], JNum 0, JBool False, JNull]"
  shows "(wf_tree items
          \<and> index_components parse items = Some cs
          \<and> component_file items segs body
          \<and> parse body = Some componentData
          \<and> \<not> truthy (at componentData [''topics''])
          \<and> \<not> truthy (at componentData [''definitions''])
          \<and> field \<in> set required_fields
          \<and> at componentData field = Some v
        \<longrightarrow> status (validatePackage parse (Some (Dir items))) = 1
          \<and> (sorts cs \<longrightarrow> (Error, Missing (join_path segs) (dotted field))
              \<in> set (printed (validatePackage parse (Some (Dir items))))))
     \<and> (load parse items ''index.json'' = Inr indexData
          \<and> at indexData [''version''] = Some v
        \<longrightarrow> status (validatePackage parse (Some (Dir items))) = 1
          \<and> (Error, IndexMissingVersion)
              \<in> set (printed (validatePackage parse (Some (Dir items)))))"
proof -
  from assms have falsy: "\<not> truthy (Some v)" by auto
  have component: "status (validatePackage parse (Some (Dir items))) = 1
          \<and> (sorts cs \<longrightarrow> (Error, Missing (join_path segs) (dotted field))
              \<in> set (printed (validatePackage parse (Some (Dir items)))))"
    if h: "wf_tree items" "index_components parse items = Some cs"
      "component_file items segs body" "parse body = Some componentData"
      "\<not> truthy (at componentData [''topics''])" "\<not> truthy (at componentData [''definitions''])"
      "field \<in> set required_fields" "at componentData field = Some v"
  proof -
    from component_file_discovered [OF h(1,3)]
    have d: "join_path segs \<in> set (actualFiles items)"
      and rd: "readFileSync items (join_path segs) = Inr body"
      by simp_all
    from rd h(4) have l: "load parse items (join_path segs) = Inr componentData"
      by (simp add: load_def)
    from h(7) obtain k ks where "field = k # ks" by (auto simp: required_fields_def)
    with h(8) have nn: "componentData \<noteq> JNull" by auto
    from falsy h(8) have f: "\<not> truthy (at componentData field)" by simp
    from falsy_field_reported [OF h(2) d l nn h(5,6,7) f]
      required_fields_parent [OF h(7,8) falsy]
    show ?thesis by simp
  qed
  have index: "status (validatePackage parse (Some (Dir items))) = 1
          \<and> (Error, IndexMissingVersion) \<in> set (printed (validatePackage parse (Some (Dir items))))"
    if h: "load parse items ''index.json'' = Inr indexData" "at indexData [''version''] = Some v"
  proof -
    from h(2) have nn: "indexData \<noteq> JNull" by auto
    from falsy h(2) have "\<not> truthy (at indexData [''version''])" by simp
    with validatePackage_index_rejected [OF h(1) nn] show ?thesis by simp
  qed
  from component index show ?thesis by blast
qed

theorem falsy_field_counts_as_missing_witness:
  \<open>JStr [] \<in> set [JStr [], JNum 0, JBool False, JNull]
   \<and> wf_tree catalog_empty_type
   \<and> index_components example_parse catalog_empty_type
        = Some [JStr ''button.json'', JStr ''cards/card.json'']
   \<and> sorts [JStr ''button.json'', JStr ''cards/card.json'']
   \<and> component_file catalog_empty_type [''cards'', ''card.json'']
        ''{"metadata":{"type":"","name":"Card"},"ui":{"template":{}},"integration":{}}''
   \<and> example_parse ''{"metadata":{"type":"","name":"Card"},"ui":{"template":{}},"integration":{}}''
        = Some card_empty_type
   \<and> at card_empty_type [''metadata'', ''type''] = Some (JStr [])
   \<and> status (validatePackage example_parse (Some (Dir catalog_empty_type))) = 1
   \<and> (Error, Missing ''cards/card.json'' ''metadata.type'')
        \<in> set (printed (validatePackage example_parse (Some (Dir catalog_empty_type))))
   \<and> load example_parse catalog_no_version ''index.json'' = Inr (index_doc (JStr []) [''button.json''])
   \<and> at (index_doc (JStr []) [''button.json'']) [''version''] = Some (JStr [])
   \<and> status (validatePackage example_parse (Some (Dir catalog_no_version))) = 1
   \<and> (Error, IndexMissingVersion)
        \<in> set (printed (validatePackage example_parse (Some (Dir catalog_no_version))))\<close>
proof -
  let ?card = \<open>''{"metadata":{"type":"","name":"Card"},"ui":{"template":{}},"integration":{}}''\<close>
  have v: "JStr [] \<in> set [JStr [], JNum 0, JBool False, JNull]"
    by simp
  have w: "wf_tree catalog_empty_type"
    by code_simp
  have h1: "index_components example_parse catalog_empty_type
      = Some [JStr ''button.json'', JStr ''cards/card.json'']"
    by code_simp
  have s: "sorts [JStr ''button.json'', JStr ''cards/card.json'']"
    by code_simp
  have c: "component_file catalog_empty_type [''cards'', ''card.json''] ?card"
    by code_simp
  have p: "example_parse ?card = Some card_empty_type"
    by code_simp
  have h4: "\<not> truthy (at card_empty_type [''topics''])"
    by (simp add: card_empty_type_def)
  have h5: "\<not> truthy (at card_empty_type [''definitions''])"
    by (simp add: card_empty_type_def)
  have h6: "[''metadata'', ''type''] \<in> set required_fields"
    by (simp add: required_fields_def)
  have h7: "at card_empty_type [''metadata'', ''type''] = Some (JStr [])"
    by (simp add: card_empty_type_def)
  have i1: "load example_parse catalog_no_version ''index.json''
      = Inr (index_doc (JStr []) [''button.json''])"
    by code_simp
  have i2: "at (index_doc (JStr []) [''button.json'']) [''version''] = Some (JStr [])"
    by (simp add: index_doc_def)
  note t = falsy_field_counts_as_missing [OF v, where parse = example_parse]
  from t [where items = catalog_empty_type and cs = "[JStr ''button.json'', JStr ''cards/card.json'']"
      and segs = "[''cards'', ''card.json'']" and body = ?card
      and componentData = card_empty_type and field = "[''metadata'', ''type'']"]
    w h1 s c p h4 h5 h6 h7
  have first: "status (validatePackage example_parse (Some (Dir catalog_empty_type))) = 1
     \<and> (Error, Missing ''cards/card.json'' ''metadata.type'')
        \<in> set (printed (validatePackage example_parse (Some (Dir catalog_empty_type))))"
    by simp
  from t [where items = catalog_no_version and indexData = "index_doc (JStr []) [''button.json'']"]
    i1 i2
  have second: "status (validatePackage example_parse (Some (Dir catalog_no_version))) = 1
     \<and> (Error, IndexMissingVersion)
        \<in> set (printed (validatePackage example_parse (Some (Dir catalog_no_version))))"
    by simp
  from first second v w h1 s c p h7 i1 i2 show ?thesis by simp
qed

text \<open>
  C10 as stated fails in its first half: a component file in which \<^verbatim>\<open>metadata.type\<close> is
  the empty string is not reported when the index does not pass its own checks. Here the
  \<^verbatim>\<open>version\<close> of the index is the empty string too: the run reports the version, ends
  with status 1, and prints nothing about the file.
\<close>

theorem falsy_field_not_reported_under_rejected_index:
  \<open>load example_parse catalog_bad_index ''index.json''
      = Inr (index_doc (JStr []) [''button.json''])
   \<and> component_file catalog_bad_index [''card.json'']
        ''{"metadata":{"type":"","name":"Card"},"ui":{"template":{}},"integration":{}}''
   \<and> example_parse ''{"metadata":{"type":"","name":"Card"},"ui":{"template":{}},"integration":{}}''
        = Some card_empty_type
   \<and> \<not> truthy (at card_empty_type [''topics''])
   \<and> \<not> truthy (at card_empty_type [''definitions''])
   \<and> at card_empty_type [''metadata'', ''type''] = Some (JStr [])
   \<and> validatePackage example_parse (Some (Dir catalog_bad_index)) =
       \<lparr>printed = [(Log, Validating), (Log, IndexValid), (Error, IndexMissingVersion)],
        status = 1\<rparr>\<close>
  by code_simp

section \<open>The validator: stale entries\<close>



section \<open>The validator: order of the declarations\<close>

text \<open>
  C9. Two catalogs with the same discovered files, holding the same texts, and with
  indexes that agree on \<^verbatim>\<open>version\<close> and whose \<^verbatim>\<open>components\<close> arrays are permutations
  of each other: the validator ends with the same status on both.
\<close>

theorem declaration_order_irrelevant:
  assumes "load parse items ''index.json'' = Inr indexData"
    and "load parse items' ''index.json'' = Inr indexData'"
    and "at indexData [''components''] = Some (JArr cs)"
    and "at indexData' [''components''] = Some (JArr cs')"
    and "mset cs' = mset cs"
    and "at indexData' [''version''] = at indexData [''version'']"
    and "getAllJsonFiles items' [] = getAllJsonFiles items []"
    and "\<forall>f\<in>set (getAllJsonFiles items []). load parse items' f = load parse items f"
  shows "status (validatePackage parse (Some (Dir items')))
     = status (validatePackage parse (Some (Dir items)))"
proof -
  have "status (validatePackage parse (Some (Dir items')))
      = (if truthy (at indexData' [''version'']) \<and> (sorts cs' \<and> \<not> any_errors parse items' cs')
         then 0 else 1)"
    using validatePackage_status_index [OF assms(2,4)] by simp
  also have "\<dots> = (if truthy (at indexData [''version'']) \<and> (sorts cs \<and> \<not> any_errors parse items cs)
         then 0 else 1)"
    by (simp only: any_errors_permuted [OF assms(5,7,8)] assms(6))
  also have "\<dots> = status (validatePackage parse (Some (Dir items)))"
    using validatePackage_status_index [OF assms(1,3)] by simp
  finally show ?thesis .
qed

theorem declaration_order_irrelevant_witness:
  "load example_parse catalog_sorted ''index.json''
      = Inr (index_doc (JStr ''1.0.0'') [''button.json'', ''card.json''])
   \<and> load example_parse catalog_reversed ''index.json''
      = Inr (index_doc (JStr ''1.0.0'') [''card.json'', ''button.json''])
   \<and> mset [JStr ''card.json'', JStr ''button.json''] = mset [JStr ''button.json'', JStr ''card.json'']
   \<and> getAllJsonFiles catalog_sorted [] = [''button.json'', ''card.json'']
   \<and> getAllJsonFiles catalog_reversed [] = [''button.json'', ''card.json'']
   \<and> load example_parse catalog_reversed ''button.json'' = load example_parse catalog_sorted ''button.json''
   \<and> load example_parse catalog_reversed ''card.json'' = load example_parse catalog_sorted ''card.json''
   \<and> status (validatePackage example_parse (Some (Dir catalog_reversed))) = 0
   \<and> status (validatePackage example_parse (Some (Dir catalog_sorted))) = 0"
proof -
  have h1: "load example_parse catalog_sorted ''index.json''
      = Inr (index_doc (JStr ''1.0.0'') [''button.json'', ''card.json''])"
    by code_simp
  have h2: "load example_parse catalog_reversed ''index.json''
      = Inr (index_doc (JStr ''1.0.0'') [''card.json'', ''button.json''])"
    by code_simp
  have h3: "at (index_doc (JStr ''1.0.0'') [''button.json'', ''card.json'']) [''components'']
        = Some (JArr [JStr ''button.json'', JStr ''card.json''])"
    by (simp add: index_doc_def)
  have h4: "at (index_doc (JStr ''1.0.0'') [''card.json'', ''button.json'']) [''components'']
        = Some (JArr [JStr ''card.json'', JStr ''button.json''])"
    by (simp add: index_doc_def)
  have h5: "mset [JStr ''card.json'', JStr ''button.json''] = mset [JStr ''button.json'', JStr ''card.json'']"
    by (simp add: add.commute)
  have h6: "at (index_doc (JStr ''1.0.0'') [''card.json'', ''button.json'']) [''version'']
      = at (index_doc (JStr ''1.0.0'') [''button.json'', ''card.json'']) [''version'']"
    by (simp add: index_doc_def)
  have a: "getAllJsonFiles catalog_sorted [] = [''button.json'', ''card.json'']"
    by code_simp
  have b: "getAllJsonFiles catalog_reversed [] = [''button.json'', ''card.json'']"
    by code_simp
  have l1: "load example_parse catalog_reversed ''button.json''
      = load example_parse catalog_sorted ''button.json''"
    by code_simp
  have l2: "load example_parse catalog_reversed ''card.json''
      = load example_parse catalog_sorted ''card.json''"
    by code_simp
  have h7: "getAllJsonFiles catalog_reversed [] = getAllJsonFiles catalog_sorted []"
    by (simp only: a b)
  have h8: "\<forall>f\<in>set (getAllJsonFiles catalog_sorted []).
          load example_parse catalog_reversed f = load example_parse catalog_sorted f"
    unfolding a using l1 l2 by simp
  have s: "status (validatePackage example_parse (Some (Dir catalog_sorted))) = 0"
    by code_simp
  from declaration_order_irrelevant [OF h1 h2 h3 h4 h5 h6 h7 h8] h1 h2 h5 a b l1 l2 s
  show ?thesis by simp
qed

section \<open>The test suite: what each check asks\<close>

lemma statements_ok: "statements xs = Inr () \<longleftrightarrow> (\<forall>x\<in>set xs. x = Inr ())"
  by (induction xs) (auto split: sum.splits)

lemma member_undefined: "member None ks = (if ks = [] then Inr None else Inl TypeError)"
  by (cases ks) simp_all

lemma member_cases:
  "member (Some d) ks = Inr (at d ks) \<or> (member (Some d) ks = Inl TypeError \<and> at d ks = None)"
proof (induction ks arbitrary: d)
  case Nil
  then show ?case by simp
next
  case (Cons k ks)
  show ?case
  proof (cases d)
    case (JObj kvs)
    show ?thesis
    proof (cases "map_of kvs k")
      case None
      with JObj show ?thesis by (simp add: member_undefined)
    next
      case (Some w)
      with JObj Cons.IH [of w] show ?thesis by simp
    qed
  qed (simp_all add: member_undefined)
qed

lemma on_member:
  assumes "f None \<noteq> Inr ()"
  shows "on (member (Some d) ks) f = Inr () \<longleftrightarrow> f (at d ks) = Inr ()"
  using member_cases [of d ks] assms by (auto simp: on_def)

lemma assertExists_iff:
  "on (member (Some d) ks) (\<lambda>v. assertExists v msg) = Inr () \<longleftrightarrow> present d ks"
  by (subst on_member) (auto simp: assertExists_def present_def split: option.splits)

lemma assertEqual_iff:
  "on (member (Some d) ks) (\<lambda>v. assertEqual v s msg) = Inr () \<longleftrightarrow> at d ks = Some (JStr s)"
  by (subst on_member) (auto simp: assertEqual_def split: sum.splits)

lemma assert_truthy_iff:
  "on (member (Some d) ks) (\<lambda>v. assert (truthy v) msg) = Inr () \<longleftrightarrow> truthy (at d ks)"
  by (subst on_member) (auto simp: assert_def)

lemma assert_isArray_iff:
  "on (member (Some d) ks) (\<lambda>v. assert (isArray v) msg) = Inr () \<longleftrightarrow> isArray (at d ks)"
  by (subst on_member) (auto simp: assert_def)

lemma assertType_iff:
  "t \<noteq> ''undefined'' \<Longrightarrow>
   on (member (Some d) ks) (\<lambda>v. assertType v t msg) = Inr () \<longleftrightarrow> typeof (at d ks) = t"
  by (subst on_member) (auto simp: assertType_def)

lemma js_includes_has_text:
  "on (js_includes v x) (\<lambda>b. assert b msg) = Inr () \<longleftrightarrow> has_text v x"
  by (cases "(v, x)" rule: has_text.cases) (auto simp: on_def assert_def)

lemma assert_includes_iff:
  "on (on (member (Some d) ks) (\<lambda>v. js_includes v x)) (\<lambda>b. assert b msg) = Inr ()
     \<longleftrightarrow> has_text (at d ks) x"
proof -
  have "on (on (member (Some d) ks) (\<lambda>v. js_includes v x)) (\<lambda>b. assert b msg)
      = on (member (Some d) ks) (\<lambda>v. on (js_includes v x) (\<lambda>b. assert b msg))"
    by (simp add: on_def split: sum.splits)
  moreover have "on (js_includes None x) (\<lambda>b. assert b msg) \<noteq> Inr ()"
    by (simp add: on_def)
  then have "on (member (Some d) ks) (\<lambda>v. on (js_includes v x) (\<lambda>b. assert b msg)) = Inr ()
      \<longleftrightarrow> on (js_includes (at d ks) x) (\<lambda>b. assert b msg) = Inr ()"
    by (rule on_member)
  ultimately show ?thesis
    by (simp only: js_includes_has_text)
qed

lemmas assertion_iffs = statements_ok assertExists_iff assertEqual_iff assert_truthy_iff
  assert_isArray_iff assertType_iff assert_includes_iff


lemma at_append_object:
  "at d (p @ q) \<noteq> None \<Longrightarrow> q \<noteq> [] \<Longrightarrow> \<exists>kvs. at d p = Some (JObj kvs)"
proof (induction p arbitrary: d)
  case Nil
  then obtain k ks v where "q = k # ks" "at d (k # ks) = Some v"
    by (cases q) auto
  then show ?case by (cases d) simp_all
next
  case (Cons k p)
  show ?case
  proof (cases d)
    case (JObj kvs)
    with Cons.prems(1) obtain w where w: "map_of kvs k = Some w" "at w (p @ q) \<noteq> None"
      by (auto split: option.splits)
    from Cons.IH [OF w(2) Cons.prems(2)] w(1) JObj show ?thesis by simp
  qed (use Cons.prems in simp_all)
qed

lemma present_prefix: "at d (p @ q) \<noteq> None \<Longrightarrow> q \<noteq> [] \<Longrightarrow> present d p"
  using at_append_object [of d p q] by (auto simp: present_def)

lemma present_not_None: "present d p \<Longrightarrow> at d p \<noteq> None"
  by (auto simp: present_def split: option.splits)

lemma truthy_not_None: "truthy v \<Longrightarrow> v \<noteq> None"
  by (cases v) auto

lemma isArray_object: "isArray v \<Longrightarrow> typeof v = ''object''"
  by (cases v rule: isArray.cases) simp_all

lemma has_text_present: "has_text (at d p) x \<Longrightarrow> present d p"
  by (cases "(at d p, x)" rule: has_text.cases) (auto simp: present_def)

lemma test1_iff: "test1 d = Inr () \<longleftrightarrow> shape1 d"
  using present_prefix [of d "[''metadata'']" "[''type'']"]
  unfolding test1_def statements_ok
  by (auto simp: shape1_def assertion_iffs isArray_object simp del: member.simps statements.simps)

lemma test2_iff: "test2 d = Inr () \<longleftrightarrow> shape2 d"
  using present_prefix [of d "[''ui'']" "[''template'']"]
    present_prefix [of d "[''ui'', ''icon'']" "[''value'']"]
  unfolding test2_def statements_ok
  by (auto simp: shape2_def assertion_iffs simp del: member.simps statements.simps dest: present_not_None)

lemma test3_iff: "test3 d = Inr () \<longleftrightarrow> shape3 d"
  using present_prefix [of d "[''integration'']" "[''properties'', ''schema'', ''code'', ''type'']"]
    present_prefix [of d "[''integration'', ''properties'']" "[''schema'', ''code'', ''type'']"]
    present_prefix [of d "[''integration'', ''properties'', ''schema'']" "[''code'', ''type'']"]
    present_prefix [of d "[''integration'', ''properties'', ''schema'', ''code'']" "[''type'']"]
    present_prefix [of d "[''integration'', ''properties'', ''schema'', ''code'', ''ui'']" "[''control'']"]
  unfolding test3_def statements_ok
  by (auto simp: shape3_def assertion_iffs simp del: member.simps statements.simps)

lemma test4_iff: "test4 d = Inr () \<longleftrightarrow> shape4 d"
  using present_prefix [of d "[''template'']" "[''render'', ''strategy'']"]
    present_prefix [of d "[''template'', ''render'']" "[''strategy'']"]
    present_prefix [of d "[''template'', ''react'']" "[''code'']"]
    has_text_present [of d "[''template'', ''classes'']" "''rx-comp''"]
  unfolding test4_def statements_ok
  by (auto simp: shape4_def assertion_iffs simp del: member.simps statements.simps dest: present_not_None)

lemma test5_iff: "test5 d = Inr () \<longleftrightarrow> shape5 d"
  using present_prefix [of d "[''interactions'']" "[''canvas.component.create'', ''pluginId'']"]
    present_prefix [of d "[''interactions'', ''canvas.component.create'']" "[''pluginId'']"]
  unfolding test5_def statements_ok
  by (auto simp: shape5_def assertion_iffs simp del: member.simps statements.simps)

lemma test6_iff: "test6 index = Inr () \<longleftrightarrow> index_lists_react index"
  unfolding test6_def statements_ok
  by (auto simp: index_lists_react_def assertion_iffs simp del: member.simps statements.simps)

lemma test7_iff: "test7 d = Inr () \<longleftrightarrow> shape7 d"
  unfolding test7_def statements_ok
  by (auto simp: shape7_def assertion_iffs simp del: member.simps statements.simps)

lemma test8_iff: "test8 d = Inr () \<longleftrightarrow> shape8 d"
  using present_prefix [of d "[''integration'', ''events'']" "[''mount'']"]
  unfolding test8_def statements_ok
  by (auto simp: shape8_def assertion_iffs simp del: member.simps statements.simps
      dest: present_not_None)


lemma foldl_test:
  "foldl test s ts =
     \<lparr>tlog = tlog s @ map test_line ts, testCount = testCount s + length ts,
      passedCount = passedCount s + length (filter passes ts)\<rparr>"
proof (induction ts arbitrary: s)
  case Nil
  then show ?case by simp
next
  case (Cons t ts)
  have "foldl test s (t # ts) = foldl test (test s t) ts" by simp
  also have "\<dots> = \<lparr>tlog = tlog (test s t) @ map test_line ts,
      testCount = testCount (test s t) + length ts,
      passedCount = passedCount (test s t) + length (filter passes ts)\<rparr>"
    by (rule Cons.IH)
  also have "\<dots> = \<lparr>tlog = tlog s @ map test_line (t # ts), testCount = testCount s + length (t # ts),
      passedCount = passedCount s + length (filter passes (t # ts))\<rparr>"
    by (simp add: test_def test_line_def passes_def Let_def split: sum.splits)
  finally show ?case .
qed

lemma length_the_tests: "length (the_tests d index) = 8"
  by (simp add: the_tests_def)

lemma main_loaded:
  assumes "loadReactComponent parse reactFile = Inr reactComponent"
    and "loadIndex parse indexFile = Inr index"
  shows "main parse reactFile indexFile =
     \<lparr>shown = [(Log, Running)] @ map test_line (the_tests reactComponent index)
        @ [(Log, Results (length (filter passes (the_tests reactComponent index))) 8),
           (Log, if length (filter passes (the_tests reactComponent index)) = 8
                 then AllTestsPassed else SomeTestsFailed)],
      code = (if length (filter passes (the_tests reactComponent index)) = 8 then 0 else 1)\<rparr>"
  using assms
  by (simp add: main_def runTests_def Let_def foldl_test length_the_tests)

lemma main_not_loaded:
  assumes "loadReactComponent parse reactFile = Inl e
     \<or> (loadReactComponent parse reactFile = Inr reactComponent \<and> loadIndex parse indexFile = Inl e)"
  shows "main parse reactFile indexFile = \<lparr>shown = [(Log, Running), (Error, SuiteFailed e)], code = 1\<rparr>"
  using assms
  by (auto simp: main_def runTests_def Let_def)

lemma length_filter_all: "length (filter P xs) = length xs \<longleftrightarrow> (\<forall>x\<in>set xs. P x)"
proof (induction xs)
  case Nil
  then show ?case by simp
next
  case (Cons x xs)
  have le: "length (filter P xs) \<le> length xs" by (rule length_filter_le)
  show ?case
  proof (cases "P x")
    case True
    with Cons show ?thesis by simp
  next
    case False
    from le have "length (filter P xs) \<noteq> Suc (length xs)" by linarith
    with False show ?thesis by simp
  qed
qed

lemma passes_iff: "passes t \<longleftrightarrow> snd t = Inr ()"
  by (cases "snd t") (simp_all add: passes_def)

lemma all_pass_iff:
  "length (filter passes (the_tests d index)) = 8 \<longleftrightarrow> expected_shape d \<and> index_lists_react index"
proof -
  have "length (filter passes (the_tests d index)) = 8
      \<longleftrightarrow> (\<forall>t\<in>set (the_tests d index). passes t)"
    using length_filter_all [of passes "the_tests d index"] by (simp add: length_the_tests)
  also have "\<dots> \<longleftrightarrow> test1 d = Inr () \<and> test2 d = Inr () \<and> test3 d = Inr () \<and> test4 d = Inr ()
      \<and> test5 d = Inr () \<and> test6 index = Inr () \<and> test7 d = Inr () \<and> test8 d = Inr ()"
    by (simp add: the_tests_def passes_iff)
  also have "\<dots> \<longleftrightarrow> expected_shape d \<and> index_lists_react index"
    by (auto simp: test1_iff test2_iff test3_iff test4_iff test5_iff test6_iff test7_iff test8_iff
        expected_shape_def)
  finally show ?thesis .
qed

lemma Results_shown:
  assumes "loadReactComponent parse reactFile = Inr reactComponent"
    and "loadIndex parse indexFile = Inr index"
  shows "(Log, Results p n) \<in> set (shown (main parse reactFile indexFile))
     \<longleftrightarrow> p = length (filter passes (the_tests reactComponent index)) \<and> n = 8"
  by (auto simp: main_loaded [OF assms] test_line_def split: sum.splits)

section \<open>The test suite: catching and counting\<close>

text \<open>
  C6, as amended. When both files load, all eight checks run: the suite prints one line for
  each, a pass line or the line of the exception it caught, then the count of the checks
  that passed out of 8, and the process ends with status 0 exactly when the count is 8 and
  with status 1 exactly when it is not. When the component file or the index file does not
  load, no check runs and no count is printed: the suite prints the line of the failure and
  the process ends with status 1.
\<close>

theorem failures_caught_and_counted:
  "(loadReactComponent parse reactFile = Inr reactComponent \<and> loadIndex parse indexFile = Inr index
      \<longrightarrow> shown (main parse reactFile indexFile)
            = [(Log, Running)] @ map test_line (the_tests reactComponent index)
              @ [(Log, Results (length (filter passes (the_tests reactComponent index))) 8),
                 (Log, if length (filter passes (the_tests reactComponent index)) = 8
                       then AllTestsPassed else SomeTestsFailed)]
          \<and> length (the_tests reactComponent index) = 8
          \<and> (code (main parse reactFile indexFile) = 0
               \<longleftrightarrow> length (filter passes (the_tests reactComponent index)) = 8)
          \<and> (code (main parse reactFile indexFile) = 1
               \<longleftrightarrow> length (filter passes (the_tests reactComponent index)) \<noteq> 8))
   \<and> (loadReactComponent parse reactFile = Inl e
        \<or> loadReactComponent parse reactFile = Inr reactComponent \<and> loadIndex parse indexFile = Inl e
      \<longrightarrow> main parse reactFile indexFile
            = \<lparr>shown = [(Log, Running), (Error, SuiteFailed e)], code = 1\<rparr>)"
  using main_loaded [of parse reactFile reactComponent indexFile index]
    main_not_loaded [of parse reactFile e reactComponent indexFile]
  by (simp add: length_the_tests)

section \<open>The test suite: the documents that pass\<close>

text \<open>
  C8, as amended. With both files loaded, a component document that has the whole expected
  shape (all that the seven checks on it ask for, of which the three fields of the claim
  are a part) together with an index that lists \<^verbatim>\<open>react.json\<close> makes the suite report
  8/8 and end with status 0; and the suite reports 8/8 for no other documents.
\<close>

theorem expected_shape_passes_all:
  assumes "loadReactComponent parse reactFile = Inr reactComponent"
    and "loadIndex parse indexFile = Inr index"
  shows "(expected_shape reactComponent \<and> index_lists_react index
          \<longrightarrow> (Log, Results 8 8) \<in> set (shown (main parse reactFile indexFile))
            \<and> code (main parse reactFile indexFile) = 0)
     \<and> ((Log, Results 8 8) \<in> set (shown (main parse reactFile indexFile))
          \<longrightarrow> expected_shape reactComponent \<and> index_lists_react index)"
  using all_pass_iff [of reactComponent index] Results_shown [OF assms, of 8 8]
  by (auto simp: main_loaded [OF assms])


lemma map_of_set_key:
  "map_of (map (\<lambda>kv. if fst kv = k then (fst kv, g (snd kv)) else kv) kvs) k'
     = (if k' = k then map_option g (map_of kvs k) else map_of kvs k')"
  by (induction kvs) auto

lemma get_set_at_other:
  "k' \<noteq> k \<Longrightarrow> get (Some (set_at (k # ks) new d)) k' = get (Some d) k'"
  by (cases d) (simp_all add: map_of_set_key)

lemma member_set_at_other:
  "k' \<noteq> k \<Longrightarrow> member (Some (set_at (k # ks) new d)) (k' # ks') = member (Some d) (k' # ks')"
  by (simp add: get_set_at_other del: set_at.simps)

lemma at_set_at: "at d p = Some old \<Longrightarrow> at (set_at p new d) p = Some new"
proof (induction p arbitrary: d)
  case Nil
  then show ?case by simp
next
  case (Cons k p)
  from Cons.prems obtain kvs w where d: "d = JObj kvs" "map_of kvs k = Some w" "at w p = Some old"
    by (cases d) (auto split: option.splits)
  from Cons.IH [OF d(3)] d(1,2) show ?case
    by (simp add: map_of_set_key)
qed

lemma strategy_frame:
  "test1 (set_at (''template'' # ks) new d) = test1 d"
  "test2 (set_at (''template'' # ks) new d) = test2 d"
  "test3 (set_at (''template'' # ks) new d) = test3 d"
  "test5 (set_at (''template'' # ks) new d) = test5 d"
  "test7 (set_at (''template'' # ks) new d) = test7 d"
  "test8 (set_at (''template'' # ks) new d) = test8 d"
  unfolding test1_def test2_def test3_def test5_def test7_def test8_def
  by (simp_all add: member_set_at_other del: member.simps set_at.simps statements.simps)

lemma statements_third:
  "a = Inr () \<Longrightarrow> b = Inr () \<Longrightarrow> statements (a # b # Inl e # rest) = Inl e"
  by simp

lemma test4_corrupted:
  assumes "shape4 d" "new \<noteq> JStr ''react''"
  shows \<open>test4 (set_at [''template'', ''render'', ''strategy''] new d)
     = Inl (case toString new of Inl e \<Rightarrow> e
            | Inr got \<Rightarrow> Failed ''template.render.strategy should be "react"'')\<close>
proof -
  let ?d = "set_at [''template'', ''render'', ''strategy''] new d"
  from assms(1) have "at d [''template'', ''render'', ''strategy''] = Some (JStr ''react'')"
    by (simp add: shape4_def)
  then have a: "at ?d [''template'', ''render'', ''strategy''] = Some new"
    by (rule at_set_at)
  then have n: "at ?d ([''template''] @ [''render'', ''strategy'']) \<noteq> None"
    "at ?d ([''template'', ''render''] @ [''strategy'']) \<noteq> None"
    by simp_all
  have p1: "present ?d [''template'']"
    by (rule present_prefix [OF n(1)]) simp
  have p2: "present ?d [''template'', ''render'']"
    by (rule present_prefix [OF n(2)]) simp
  have m: "member (Some ?d) [''template'', ''render'', ''strategy''] = Inr (Some new)"
    using member_cases [of ?d "[''template'', ''render'', ''strategy'']"] a by auto
  have s1: "on (member (Some ?d) [''template'']) (\<lambda>v. assertExists v ''template field missing'') = Inr ()"
    using p1 by (simp only: assertExists_iff)
  have s2: "on (member (Some ?d) [''template'', ''render''])
       (\<lambda>v. assertExists v ''template.render missing'') = Inr ()"
    using p2 by (simp only: assertExists_iff)
  have s3: \<open>on (member (Some ?d) [''template'', ''render'', ''strategy''])
       (\<lambda>v. assertEqual v ''react'' ''template.render.strategy should be "react"'')
     = Inl (case toString new of Inl e \<Rightarrow> e
            | Inr got \<Rightarrow> Failed ''template.render.strategy should be "react"'')\<close>
    using assms(2) by (simp only: m) (simp add: on_def assertEqual_def split: sum.splits)
  show ?thesis
    unfolding test4_def s3
    by (rule statements_third [OF s1 s2])
qed

lemma passes_count:
  "length (filter passes ts) = length (filter (\<lambda>r. r = Inr ()) (map snd ts))"
  by (induction ts) (simp_all add: passes_iff)

section \<open>The test suite: a corrupted render strategy\<close>

text \<open>
  C7. On a catalog for which the suite ends with status 0, all eight checks pass. Replace
  only the value of \<^verbatim>\<open>template.render.strategy\<close> in the component document by a value other
  than the string \<^verbatim>\<open>react\<close>: the fourth check, on the template structure, now throws in
  its strategy assertion, the other seven still pass, and the suite reports 7/8 and ends
  with status 1. What the assertion throws is its own failure, whose message prints the
  new value; when the new value cannot be printed (an object with a key \<^verbatim>\<open>toString\<close>) it
  is the TypeError of the printing.
\<close>

theorem corrupted_strategy_fails_one_test:
  assumes "loadReactComponent parse reactFile = Inr reactComponent"
    and "loadIndex parse indexFile = Inr index"
    and "code (main parse reactFile indexFile) = 0"
    and "loadReactComponent parse corruptedFile
           = Inr (set_at [''template'', ''render'', ''strategy''] new reactComponent)"
    and "new \<noteq> JStr ''react''"
  shows \<open>map snd (the_tests reactComponent index) = replicate 8 (Inr ())
     \<and> map snd (the_tests (set_at [''template'', ''render'', ''strategy''] new reactComponent) index)
         = [Inr (), Inr (), Inr (),
            Inl (case toString new of Inl e \<Rightarrow> e
                 | Inr got \<Rightarrow> Failed ''template.render.strategy should be "react"''),
            Inr (), Inr (), Inr (), Inr ()]
     \<and> (Log, Results 7 8) \<in> set (shown (main parse corruptedFile indexFile))
     \<and> code (main parse corruptedFile indexFile) = 1\<close>
proof -
  let ?d = "set_at [''template'', ''render'', ''strategy''] new reactComponent"
  from assms(3) have "length (filter passes (the_tests reactComponent index)) = 8"
    by (simp add: main_loaded [OF assms(1,2)] split: if_splits)
  then have all: "\<forall>t\<in>set (the_tests reactComponent index). snd t = Inr ()"
    using length_filter_all [of passes "the_tests reactComponent index"]
    by (simp add: length_the_tests passes_iff)
  then have t: "test1 reactComponent = Inr ()" "test2 reactComponent = Inr ()"
    "test3 reactComponent = Inr ()" "test4 reactComponent = Inr ()" "test5 reactComponent = Inr ()"
    "test6 index = Inr ()" "test7 reactComponent = Inr ()" "test8 reactComponent = Inr ()"
    by (simp_all add: the_tests_def)
  then have before: "map snd (the_tests reactComponent index) = replicate 8 (Inr ())"
    by (simp add: the_tests_def numeral_eq_Suc)
  from t(4) have "shape4 reactComponent" by (simp only: test4_iff)
  then have t4: \<open>test4 ?d = Inl (case toString new of Inl e \<Rightarrow> e
            | Inr got \<Rightarrow> Failed ''template.render.strategy should be "react"'')\<close>
    using assms(5) by (rule test4_corrupted)
  have after: \<open>map snd (the_tests ?d index)
         = [Inr (), Inr (), Inr (),
            Inl (case toString new of Inl e \<Rightarrow> e
                 | Inr got \<Rightarrow> Failed ''template.render.strategy should be "react"''),
            Inr (), Inr (), Inr (), Inr ()]\<close>
    unfolding the_tests_def by (simp add: strategy_frame t t4 del: set_at.simps)
  have seven: "length (filter passes (the_tests ?d index)) = 7"
    unfolding passes_count after by simp
  from main_loaded [OF assms(4,2)] seven
  have "(Log, Results 7 8) \<in> set (shown (main parse corruptedFile indexFile))
     \<and> code (main parse corruptedFile indexFile) = 1"
    by simp
  with before after show ?thesis by simp
qed


theorem failures_caught_and_counted_witness:
  \<open>loadReactComponent suite_parse (Some (File partial_text)) = Inr partial_doc
   \<and> loadIndex suite_parse (Some (File react_index_text))
       = Inr (index_doc (JStr ''1.0.0'') [''react.json''])
   \<and> length (filter passes (the_tests partial_doc (index_doc (JStr ''1.0.0'') [''react.json'']))) = 1
   \<and> (Error, Threw ''React component has required metadata fields''
         (Failed ''metadata.name should be "React"''))
        \<in> set (shown (main suite_parse (Some (File partial_text)) (Some (File react_index_text))))
   \<and> (Log, Passed ''Index file includes React component'')
        \<in> set (shown (main suite_parse (Some (File partial_text)) (Some (File react_index_text))))
   \<and> (Error, Threw ''React component has proper canvas integration'' TypeError)
        \<in> set (shown (main suite_parse (Some (File partial_text)) (Some (File react_index_text))))
   \<and> (Log, Results 1 8)
        \<in> set (shown (main suite_parse (Some (File partial_text)) (Some (File react_index_text))))
   \<and> code (main suite_parse (Some (File partial_text)) (Some (File react_index_text))) = 1
   \<and> loadReactComponent suite_parse (Some (Dir [])) = Inl EISDIR
   \<and> main suite_parse (Some (Dir [])) (Some (File react_index_text))
       = \<lparr>shown = [(Log, Running), (Error, SuiteFailed EISDIR)], code = 1\<rparr>\<close>
proof -
  let ?index = "index_doc (JStr ''1.0.0'') [''react.json'']"
  have h1: "loadReactComponent suite_parse (Some (File partial_text)) = Inr partial_doc"
    by code_simp
  have h2: "loadIndex suite_parse (Some (File react_index_text)) = Inr ?index"
    by code_simp
  have h3: "loadReactComponent suite_parse (Some (Dir [])) = Inl EISDIR"
    by code_simp
  have lines: \<open>map test_line (the_tests partial_doc ?index) =
     [(Error, Threw ''React component has required metadata fields''
         (Failed ''metadata.name should be "React"'')),
      (Error, Threw ''React component has proper UI configuration'' (Failed ''ui.template missing'')),
      (Error, Threw ''React component has proper integration configuration''
         (Failed ''integration field missing'')),
      (Error, Threw ''React component has proper template structure for external plugins''
         (Failed ''template.render missing'')),
      (Error, Threw ''React component has proper plugin interactions''
         (Failed ''interactions field missing'')),
      (Log, Passed ''Index file includes React component''),
      (Error, Threw ''React component has proper canvas integration'' TypeError),
      (Error, Threw ''React component has proper event definitions'' TypeError)]\<close>
    by code_simp
  have count: "length (filter passes (the_tests partial_doc ?index)) = 1"
    by code_simp
  from failures_caught_and_counted [of suite_parse "Some (File partial_text)" partial_doc
      "Some (File react_index_text)" ?index EISDIR] h1 h2
  have a: "shown (main suite_parse (Some (File partial_text)) (Some (File react_index_text)))
            = [(Log, Running)] @ map test_line (the_tests partial_doc ?index)
              @ [(Log, Results 1 8), (Log, SomeTestsFailed)]
     \<and> code (main suite_parse (Some (File partial_text)) (Some (File react_index_text))) = 1"
    by (simp add: count)
  from failures_caught_and_counted [of suite_parse "Some (Dir [])" partial_doc
      "Some (File react_index_text)" ?index EISDIR] h3
  have b: "main suite_parse (Some (Dir [])) (Some (File react_index_text))
       = \<lparr>shown = [(Log, Running), (Error, SuiteFailed EISDIR)], code = 1\<rparr>"
    by simp
  from a lines have c: \<open>(Error, Threw ''React component has required metadata fields''
         (Failed ''metadata.name should be "React"''))
        \<in> set (shown (main suite_parse (Some (File partial_text)) (Some (File react_index_text))))
   \<and> (Log, Passed ''Index file includes React component'')
        \<in> set (shown (main suite_parse (Some (File partial_text)) (Some (File react_index_text))))
   \<and> (Error, Threw ''React component has proper canvas integration'' TypeError)
        \<in> set (shown (main suite_parse (Some (File partial_text)) (Some (File react_index_text))))
   \<and> (Log, Results 1 8)
        \<in> set (shown (main suite_parse (Some (File partial_text)) (Some (File react_index_text))))\<close>
    by simp
  from h1 h2 count c a b h3 show ?thesis by simp
qed

text \<open>
  C6 as stated fails on a catalog without the component file: nothing is counted and no
  count is printed.
\<close>

theorem missing_component_file_reports_no_count:
  \<open>main suite_parse None (Some (File react_index_text))
     = \<lparr>shown = [(Log, Running), (Error, SuiteFailed (Failed ''React component file not found''))],
        code = 1\<rparr>\<close>
  by code_simp

theorem expected_shape_passes_all_witness:
  "loadReactComponent suite_parse (Some (File (react_text ''react''))) = Inr (react_doc ''react'')
   \<and> loadIndex suite_parse (Some (File react_index_text))
       = Inr (index_doc (JStr ''1.0.0'') [''react.json''])
   \<and> expected_shape (react_doc ''react'')
   \<and> index_lists_react (index_doc (JStr ''1.0.0'') [''react.json''])
   \<and> (Log, Results 8 8)
        \<in> set (shown (main suite_parse (Some (File (react_text ''react''))) (Some (File react_index_text))))
   \<and> code (main suite_parse (Some (File (react_text ''react''))) (Some (File react_index_text))) = 0"
proof -
  have h1: "loadReactComponent suite_parse (Some (File (react_text ''react''))) = Inr (react_doc ''react'')"
    by code_simp
  have h2: "loadIndex suite_parse (Some (File react_index_text))
       = Inr (index_doc (JStr ''1.0.0'') [''react.json''])"
    by code_simp
  have h3: "expected_shape (react_doc ''react'')"
    by code_simp
  have h4: "index_lists_react (index_doc (JStr ''1.0.0'') [''react.json''])"
    by code_simp
  from expected_shape_passes_all [OF h1 h2] h1 h2 h3 h4
  show ?thesis by simp
qed

text \<open>
  C8 as stated fails: a document with the three fields of the claim and nothing else passes
  one check of eight, the one on the index.
\<close>

theorem three_fields_do_not_pass_all:
  "at partial_doc [''metadata'', ''type''] = Some (JStr ''react'')
   \<and> at partial_doc [''ui'', ''icon'', ''value''] = Some (JStr react_emoji)
   \<and> at partial_doc [''template'', ''classes''] = Some (JArr [JStr ''rx-comp'', JStr ''rx-react''])
   \<and> loadReactComponent suite_parse (Some (File partial_text)) = Inr partial_doc
   \<and> loadIndex suite_parse (Some (File react_index_text))
       = Inr (index_doc (JStr ''1.0.0'') [''react.json''])
   \<and> (Log, Results 1 8)
        \<in> set (shown (main suite_parse (Some (File partial_text)) (Some (File react_index_text))))
   \<and> (Log, Results 8 8)
        \<notin> set (shown (main suite_parse (Some (File partial_text)) (Some (File react_index_text))))
   \<and> code (main suite_parse (Some (File partial_text)) (Some (File react_index_text))) = 1"
  by code_simp

theorem corrupted_strategy_fails_one_test_witness:
  \<open>loadReactComponent suite_parse (Some (File (react_text ''react''))) = Inr (react_doc ''react'')
   \<and> loadIndex suite_parse (Some (File react_index_text))
       = Inr (index_doc (JStr ''1.0.0'') [''react.json''])
   \<and> code (main suite_parse (Some (File (react_text ''react''))) (Some (File react_index_text))) = 0
   \<and> set_at [''template'', ''render'', ''strategy''] (JStr ''vue'') (react_doc ''react'')
       = react_doc ''vue''
   \<and> loadReactComponent suite_parse (Some (File (react_text ''vue''))) = Inr (react_doc ''vue'')
   \<and> JStr ''vue'' \<noteq> JStr ''react''
   \<and> map snd (the_tests (react_doc ''vue'') (index_doc (JStr ''1.0.0'') [''react.json'']))
         = [Inr (), Inr (), Inr (),
            Inl (Failed ''template.render.strategy should be "react"''),
            Inr (), Inr (), Inr (), Inr ()]
   \<and> (Log, Results 7 8)
        \<in> set (shown (main suite_parse (Some (File (react_text ''vue''))) (Some (File react_index_text))))
   \<and> code (main suite_parse (Some (File (react_text ''vue''))) (Some (File react_index_text))) = 1\<close>
proof -
  have h1: "loadReactComponent suite_parse (Some (File (react_text ''react''))) = Inr (react_doc ''react'')"
    by code_simp
  have h2: "loadIndex suite_parse (Some (File react_index_text))
       = Inr (index_doc (JStr ''1.0.0'') [''react.json''])"
    by code_simp
  have h3: "code (main suite_parse (Some (File (react_text ''react''))) (Some (File react_index_text))) = 0"
    by code_simp
  have e: "set_at [''template'', ''render'', ''strategy''] (JStr ''vue'') (react_doc ''react'')
       = react_doc ''vue''"
    by code_simp
  have l: "loadReactComponent suite_parse (Some (File (react_text ''vue''))) = Inr (react_doc ''vue'')"
    by code_simp
  have h4: "loadReactComponent suite_parse (Some (File (react_text ''vue'')))
       = Inr (set_at [''template'', ''render'', ''strategy''] (JStr ''vue'') (react_doc ''react''))"
    by (simp only: l e)
  have h5: "JStr ''vue'' \<noteq> JStr ''react''"
    by simp
  from corrupted_strategy_fails_one_test [OF h1 h2 h3 h4 h5] h1 h2 h3 e l h5
  show ?thesis by simp
qed

end
